theory Spec2Isabelle
  imports Main "HOL-Library.Word" "HOL-Library.Char_ord" "HOL-Library.List_Lexorder"
    "HOL-Library.Multiset"
begin

section \<open>The Zillow client (zillow.go)\<close>

text \<open>
  The package is a thin client: each public operation builds a \<open>url.Values\<close> map from
  its request struct, issues one HTTP GET through the shared routine \<open>get\<close> and decodes
  the XML body into the operation's result struct.

  Go strings are byte sequences; they are modelled as \<open>string\<close> (lists of 8-bit
  characters). Go's \<open>int\<close> is taken at its 64-bit width and modelled as \<open>64 word\<close>,
  read as a signed number with \<open>sint\<close>. The functions of the Go standard library that
  the package calls (\<open>net/url\<close>, \<open>strconv\<close>, \<open>encoding/xml\<close>) are modelled beside
  the package's own code, function by function and under their Go names.
\<close>

subsection \<open>Errors\<close>

datatype NumErr = ErrSyntax | ErrRange

datatype error =
    NetError string                 \<comment> \<open>any error returned by \<open>http.Get\<close>\<close>
  | EOF                             \<comment> \<open>\<open>io.EOF\<close>\<close>
  | SyntaxError string              \<comment> \<open>\<open>xml.SyntaxError\<close>\<close>
  | UnmarshalError string           \<comment> \<open>\<open>xml.UnmarshalError\<close>\<close>
  | TagError string                 \<comment> \<open>an error of \<open>getTypeInfo\<close>\<close>
  | NumError string string NumErr   \<comment> \<open>\<open>strconv.NumError{Func, Num, Err}\<close>\<close>
  | EscapeError string              \<comment> \<open>\<open>url.EscapeError\<close>\<close>
  | OtherError string               \<comment> \<open>\<open>errors.New\<close>, \<open>fmt.Errorf\<close>\<close>

subsection \<open>strconv: FormatBool, Itoa\<close>

definition FormatBool :: "bool \<Rightarrow> string" where
  "FormatBool b = (if b then ''true'' else ''false'')"

definition digits :: string where
  "digits = ''0123456789abcdefghijklmnopqrstuvwxyz''"

text \<open>
  \<open>formatBits\<close> in base 10: the digits of \<open>u\<close>, most significant first. Go fills a
  buffer from its end, one digit per division by 10; the last digit is written also when
  \<open>u\<close> is 0.
\<close>

fun formatBits10 :: "nat \<Rightarrow> string" where
  "formatBits10 u =
     (if u < 10 then [digits ! u] else formatBits10 (u div 10) @ [digits ! (u mod 10)])"

declare formatBits10.simps [simp del]

text \<open>
  \<open>FormatInt(i, 10)\<close> calls \<open>formatBits(nil, uint64(i), 10, i < 0, false)\<close>, which negates
  the unsigned value when \<open>neg\<close> is set (in 64-bit arithmetic) and puts a \<open>'-'\<close> in front.
\<close>

definition FormatInt10 :: "64 word \<Rightarrow> string" where
  "FormatInt10 i =
     (let neg = (sint i < 0);
          u = (if neg then - i else i)
      in (if neg then ''-'' else []) @ formatBits10 (unat u))"

definition Itoa :: "64 word \<Rightarrow> string" where
  "Itoa i = FormatInt10 i"

subsection \<open>strconv: ParseInt, ParseBool; strings: Split, TrimSpace\<close>

text \<open>\<open>strings.Split(s, sep)\<close> for a separator of one byte.\<close>

fun Split :: "string \<Rightarrow> char \<Rightarrow> string list" where
  "Split [] sep = [[]]"
| "Split (c # s) sep =
     (if c = sep then [] # Split s sep
      else (case Split s sep of [] \<Rightarrow> [[c]] | p # ps \<Rightarrow> (c # p) # ps))"

definition isDigit :: "char \<Rightarrow> bool" where
  "isDigit c = (CHR ''0'' \<le> c \<and> c \<le> CHR ''9'')"

fun ParseUint_loop :: "string \<Rightarrow> nat \<Rightarrow> NumErr + nat" where
  "ParseUint_loop [] n = Inr n"
| "ParseUint_loop (c # s) n =
     (if \<not> isDigit c then Inl ErrSyntax
      else if n \<ge> 1844674407370955162 then Inl ErrRange
      else let n1 = n * 10 + (of_char c - of_char CHR ''0'')
           in if n1 > 18446744073709551615 then Inl ErrRange else ParseUint_loop s n1)"

definition ParseUint :: "string \<Rightarrow> NumErr + nat" where
  "ParseUint s = (if s = [] then Inl ErrSyntax else ParseUint_loop s 0)"

definition ParseInt :: "string \<Rightarrow> error + 64 word" where
  "ParseInt s0 =
     (if s0 = [] then Inl (NumError ''ParseInt'' s0 ErrSyntax)
      else
        let neg = (hd s0 = CHR ''-'');
            s = (if hd s0 = CHR ''+'' \<or> hd s0 = CHR ''-'' then tl s0 else s0)
        in case ParseUint s of
             Inl ErrSyntax \<Rightarrow> Inl (NumError ''ParseInt'' s0 ErrSyntax)
           | Inl ErrRange \<Rightarrow> Inl (NumError ''ParseInt'' s0 ErrRange)
           | Inr un \<Rightarrow>
               if \<not> neg \<and> un \<ge> 9223372036854775808 then Inl (NumError ''ParseInt'' s0 ErrRange)
               else if neg \<and> un > 9223372036854775808 then Inl (NumError ''ParseInt'' s0 ErrRange)
               else Inr (if neg then - (of_nat un) else of_nat un))"


definition ParseBool :: "string \<Rightarrow> error + bool" where
  "ParseBool str =
     (if str \<in> set [''1'', ''t'', ''T'', ''TRUE'', ''true'', ''True''] then Inr True
      else if str \<in> set [''0'', ''f'', ''F'', ''FALSE'', ''false'', ''False''] then Inr False
      else Inl (NumError ''ParseBool'' str ErrSyntax))"

text \<open>
  \<open>strings.TrimSpace\<close> removes the leading and the trailing white-space runes
  (\<open>unicode.IsSpace\<close>), given here by the bytes of their UTF-8 encodings.
\<close>

definition spaceRunes :: "nat list list" where
  "spaceRunes =
     [[0x09], [0x0A], [0x0B], [0x0C], [0x0D], [0x20], [0xC2, 0x85], [0xC2, 0xA0],
      [0xE1, 0x9A, 0x80], [0xE2, 0x80, 0x80], [0xE2, 0x80, 0x81], [0xE2, 0x80, 0x82],
      [0xE2, 0x80, 0x83], [0xE2, 0x80, 0x84], [0xE2, 0x80, 0x85], [0xE2, 0x80, 0x86],
      [0xE2, 0x80, 0x87], [0xE2, 0x80, 0x88], [0xE2, 0x80, 0x89], [0xE2, 0x80, 0x8A],
      [0xE2, 0x80, 0xA8], [0xE2, 0x80, 0xA9], [0xE2, 0x80, 0xAF], [0xE2, 0x81, 0x9F],
      [0xE3, 0x80, 0x80]]"

text \<open>
  The number of bytes of the rune of \<open>rs\<close> that \<open>s\<close> starts with; 0 when it starts with
  none of them.
\<close>

fun runeLen :: "nat list list \<Rightarrow> string \<Rightarrow> nat" where
  "runeLen [] s = 0"
| "runeLen (r # rs) s =
     (if map of_char (take (length r) s) = r then length r else runeLen rs s)"

function TrimLeft :: "nat list list \<Rightarrow> string \<Rightarrow> string" where
  "TrimLeft rs s =
     (let n = runeLen rs s in if n = 0 \<or> s = [] then s else TrimLeft rs (drop n s))"
  by pat_completeness auto
termination
  by (relation "measure (\<lambda>(rs, s). length s)") auto

declare TrimLeft.simps [simp del]

definition TrimSpace :: "string \<Rightarrow> string" where
  "TrimSpace s = rev (TrimLeft (map rev spaceRunes) (rev (TrimLeft spaceRunes s)))"

subsection \<open>net/url: QueryEscape and Values.Encode\<close>

definition upperhex :: string where
  "upperhex = ''0123456789ABCDEF''"

text \<open>\<open>shouldEscape(c, encodeQueryComponent)\<close>: only the unreserved characters are kept.\<close>

definition shouldEscape :: "char \<Rightarrow> bool" where
  "shouldEscape c =
     (if (CHR ''a'' \<le> c \<and> c \<le> CHR ''z'') \<or> (CHR ''A'' \<le> c \<and> c \<le> CHR ''Z'')
          \<or> (CHR ''0'' \<le> c \<and> c \<le> CHR ''9'') then False
      else if c = CHR ''-'' \<or> c = CHR ''_'' \<or> c = CHR ''.'' \<or> c = CHR ''~'' then False
      else True)"

text \<open>
  \<open>escape(s, encodeQueryComponent)\<close>: a space becomes \<open>'+'\<close>, any other escaped byte
  \<open>c\<close> becomes \<open>'%'\<close>, \<open>upperhex[c>>4]\<close>, \<open>upperhex[c&15]\<close>. (Go first counts the
  bytes to escape and returns \<open>s\<close> itself when there are none; the second pass, modelled
  here, gives the same string in that case.)
\<close>

fun escape :: "string \<Rightarrow> string" where
  "escape [] = []"
| "escape (c # s) =
     (if shouldEscape c then
        (if c = CHR '' '' then CHR ''+'' # escape s
         else CHR ''%'' # upperhex ! (of_char c div 16) # upperhex ! (of_char c mod 16)
                # escape s)
      else c # escape s)"

definition QueryEscape :: "string \<Rightarrow> string" where
  "QueryEscape s = escape s"

text \<open>
  \<open>url.Values\<close> is \<open>map[string][]string\<close>. A map literal is modelled as the association
  list of its entries, read as a map: the keys are the first components without
  repetition, and \<open>v[k]\<close> is \<open>map_of v k\<close> (the nil slice when absent). The order of the
  entries stands for the unspecified iteration order of the Go map.
\<close>

type_synonym Values = "(string \<times> string list) list"

definition lookup :: "Values \<Rightarrow> string \<Rightarrow> string list" where
  "lookup v k = (case map_of v k of None \<Rightarrow> [] | Some vs \<Rightarrow> vs)"

text \<open>The inner loop of \<open>Encode\<close>: one \<open>key=value\<close> pair per value of the key.\<close>

fun Encode_values :: "string \<Rightarrow> string list \<Rightarrow> string \<Rightarrow> string" where
  "Encode_values keyEscaped [] buf = buf"
| "Encode_values keyEscaped (x # vs) buf =
     Encode_values keyEscaped vs
       ((if length buf > 0 then buf @ ''&'' else buf) @ keyEscaped @ ''='' @ QueryEscape x)"

text \<open>The outer loop of \<open>Encode\<close>, over the sorted keys.\<close>

fun Encode_keys :: "Values \<Rightarrow> string list \<Rightarrow> string \<Rightarrow> string" where
  "Encode_keys v [] buf = buf"
| "Encode_keys v (k # keys) buf =
     Encode_keys v keys (Encode_values (QueryEscape k) (lookup v k) buf)"

text \<open>
  \<open>Values.Encode\<close>: the keys are collected (in the map's iteration order), sorted with
  \<open>sort.Strings\<close> (byte-wise lexicographic order, which is the order of \<open>string\<close> here)
  and written in that order.
\<close>

definition Encode :: "Values \<Rightarrow> string" where
  "Encode v =
     (if v = [] then []
      else let keys = sort (remdups (map fst v)) in Encode_keys v keys [])"

text \<open>
  \<open>QueryUnescape\<close> and \<open>ParseQuery\<close> are what the receiving side of a query string does;
  they are used here to read a query string back. \<open>unescape(s, encodeQueryComponent)\<close>
  turns \<open>%XY\<close> into the byte with the hexadecimal digits \<open>XY\<close> and \<open>'+'\<close> into a space; a
  \<open>'%'\<close> that is not followed by two hexadecimal digits is an \<open>EscapeError\<close>.
\<close>

definition ishex :: "char \<Rightarrow> bool" where
  "ishex c = ((CHR ''0'' \<le> c \<and> c \<le> CHR ''9'') \<or> (CHR ''a'' \<le> c \<and> c \<le> CHR ''f'')
               \<or> (CHR ''A'' \<le> c \<and> c \<le> CHR ''F''))"

definition unhex :: "char \<Rightarrow> nat" where
  "unhex c =
     (if CHR ''0'' \<le> c \<and> c \<le> CHR ''9'' then of_char c - of_char CHR ''0''
      else if CHR ''a'' \<le> c \<and> c \<le> CHR ''f'' then of_char c - of_char CHR ''a'' + 10
      else if CHR ''A'' \<le> c \<and> c \<le> CHR ''F'' then of_char c - of_char CHR ''A'' + 10
      else 0)"

fun unescape :: "string \<Rightarrow> error + string" where
  "unescape [] = Inr []"
| "unescape (c # s) =
     (if c = CHR ''%'' then
        (case s of
           h1 # h2 # rest \<Rightarrow>
             if ishex h1 \<and> ishex h2 then
               (case unescape rest of
                  Inl e \<Rightarrow> Inl e
                | Inr t \<Rightarrow> Inr (char_of (unhex h1 * 16 + unhex h2) # t))
             else Inl (EscapeError (take 3 (c # s)))
         | _ \<Rightarrow> Inl (EscapeError (take 3 (c # s))))
      else
        (case unescape s of
           Inl e \<Rightarrow> Inl e
         | Inr t \<Rightarrow> Inr ((if c = CHR ''+'' then CHR '' '' else c) # t)))"

definition QueryUnescape :: "string \<Rightarrow> error + string" where
  "QueryUnescape s = unescape s"

text \<open>\<open>strings.Cut(s, sep)\<close> for a separator of one byte: the parts before and after it.\<close>

definition Cut :: "string \<Rightarrow> char \<Rightarrow> string \<times> string" where
  "Cut s sep = (takeWhile (\<lambda>c. c \<noteq> sep) s, drop 1 (dropWhile (\<lambda>c. c \<noteq> sep) s))"

text \<open>
  \<open>parseQuery\<close>: the loop over the \<open>&\<close>-separated settings. The map it fills is given as
  the list of the pairs \<open>(key, value)\<close> in the order in which they are appended.
\<close>

function parseQuery :: "(string \<times> string) list \<Rightarrow> error option \<Rightarrow> string
    \<Rightarrow> (string \<times> string) list \<times> error option" where
  "parseQuery m err query =
     (if query = [] then (m, err)
      else
        let (key, query') = Cut query CHR ''&'' in
        if CHR '';'' \<in> set key then
          parseQuery m (Some (OtherError ''invalid semicolon separator in query'')) query'
        else if key = [] then parseQuery m err query'
        else
          let (k, v) = Cut key CHR ''='' in
          case QueryUnescape k of
            Inl e \<Rightarrow> parseQuery m (if err = None then Some e else err) query'
          | Inr k' \<Rightarrow>
              (case QueryUnescape v of
                 Inl e \<Rightarrow> parseQuery m (if err = None then Some e else err) query'
               | Inr v' \<Rightarrow> parseQuery (m @ [(k', v')]) err query'))"
  by pat_completeness auto
termination
proof -
  have shorter: "length query' < length query"
    if "query \<noteq> []" and "(key, query') = Cut query CHR ''&''" for query key query'
  proof -
    from that have "query' = drop 1 (dropWhile (\<lambda>c. c \<noteq> CHR ''&'') query)"
      by (simp add: Cut_def)
    moreover have "length (dropWhile (\<lambda>c. c \<noteq> CHR ''&'') query) \<le> length query"
      by (rule length_dropWhile_le)
    ultimately show ?thesis
      using that(1) by (cases query) auto
  qed
  show ?thesis
    by (relation "measure (\<lambda>(m, err, query). length query)") (auto dest: shorter)
qed

declare parseQuery.simps [simp del]

definition ParseQuery :: "string \<Rightarrow> (string \<times> string) list \<times> error option" where
  "ParseQuery query = parseQuery [] None query"


subsection \<open>The client\<close>

definition baseUrl :: string where
  "baseUrl = ''http://www.zillow.com/webservice/''"

definition zwsIdParam :: string where "zwsIdParam = ''zws-Id''"
definition zpidParam :: string where "zpidParam = ''zpid''"
definition rentzestimateParam :: string where "rentzestimateParam = ''rentzestimate''"
definition addressParam :: string where "addressParam = ''address''"
definition cityStateZipParam :: string where "cityStateZipParam = ''citystatezip''"
definition unitTypeParam :: string where "unitTypeParam = ''unit-type''"
definition widthParam :: string where "widthParam = ''width''"
definition heightParam :: string where "heightParam = ''height''"
definition chartDurationParam :: string where "chartDurationParam = ''chartDuration''"
definition countParam :: string where "countParam = ''count''"

definition getZestimatePath :: string where "getZestimatePath = ''GetZestimate''"
definition getSearchResults :: string where "getSearchResults = ''GetSearchResults''"
definition getChart :: string where "getChart = ''GetChart''"
definition getComps :: string where "getComps = ''GetComps''"

record zillow =
  zwsId :: string
  url :: string

definition NewZillow :: "string \<Rightarrow> zillow" where
  "NewZillow k = \<lparr>zwsId = k, url = baseUrl\<rparr>"

subsection \<open>Request structs\<close>

record ZestimateRequest =
  Zpid :: string
  Rentzestimate :: bool

record SearchRequest =
  Address :: string
  CityStateZip :: string
  Rentzestimate :: bool

record ChartRequest =
  Zpid :: string
  UnitType :: string
  Width :: "64 word"
  Height :: "64 word"
  Duration :: string

record CompsRequest =
  Zpid :: string
  Count :: "64 word"
  Rentzestimate :: bool

subsection \<open>encoding/xml: documents\<close>

datatype xml = Elem string "(string \<times> string) list" "node list"
and node =
    Child xml
  | CharData string
  | Comment string
  | ProcInst string string
  | Directive string
  | Fail error

subsection \<open>encoding/xml: types and values\<close>

datatype kind =
    KBool | KInt | KFloat64 | KString | KName
  | KStruct string "(string \<times> kind \<times> string) list"
  | KSlice kind

datatype gval =
    VBool bool
  | VInt "64 word"
  | VFloat "64 word"
  | VString string
  | VName string
  | VStruct "(string \<times> gval) list"
  | VSlice "gval list"

fun zero :: "kind \<Rightarrow> gval" where
  "zero KBool = VBool False"
| "zero KInt = VInt 0"
| "zero KFloat64 = VFloat 0"
| "zero KString = VString []"
| "zero KName = VName []"
| "zero (KStruct n fs) = VStruct (map (\<lambda>(f, k, t). (f, zero k)) fs)"
| "zero (KSlice k) = VSlice []"


subsection \<open>encoding/xml: typeinfo.go\<close>

datatype fmode = fElement | fAttr | fCharData

record fieldInfo =
  idx :: string
  name :: string
  parents :: "string list"
  flags :: fmode
  ftype :: kind

record typeInfo =
  xmlname :: "fieldInfo option"
  tfields :: "fieldInfo list"

definition xmlName :: string where
  "xmlName = ''XMLName''"

text \<open>
  The first half of \<open>structFieldInfo\<close>: the flags of a tag and the name part that
  remains. Of the flags, the package uses \<open>attr\<close> and \<open>chardata\<close> only; a tag with
  another flag, with several flags or with a name space is reported as \<open>TagError\<close>
  here.
\<close>

definition parseFlags :: "string \<Rightarrow> string \<Rightarrow> error + (string \<times> fmode)" where
  "parseFlags fname tag =
     (if CHR '' '' \<in> set tag then Inl (TagError ''name space in tag'')
      else
        let tokens = Split tag CHR '','' in
        if length tokens = 1 then Inr (tag, fElement)
        else
          let tag' = hd tokens in
          if tl tokens = [''attr''] then
            (if fname = xmlName then Inl (TagError ''invalid tag'') else Inr (tag', fAttr))
          else if tl tokens = [''chardata''] then
            (if fname = xmlName \<or> tag' \<noteq> [] then Inl (TagError ''invalid tag'')
             else Inr (tag', fCharData))
          else Inl (TagError ''flag of tag''))"

text \<open>\<open>lookupXMLName\<close>: the name in the tag of the \<open>XMLName\<close> field of a struct type.\<close>

fun lookupXMLName_fields :: "(string \<times> kind \<times> string) list \<Rightarrow> string option" where
  "lookupXMLName_fields [] = None"
| "lookupXMLName_fields ((fname, k, tag) # fs) =
     (if fname \<noteq> xmlName then lookupXMLName_fields fs
      else (case parseFlags fname tag of
              Inr (nm, m) \<Rightarrow> (if nm \<noteq> [] then Some nm else None)
            | Inl e \<Rightarrow> None))"

fun lookupXMLName :: "kind \<Rightarrow> string option" where
  "lookupXMLName (KStruct n fs) = lookupXMLName_fields fs"
| "lookupXMLName k = None"

definition structFieldInfo :: "string \<times> kind \<times> string \<Rightarrow> error + fieldInfo" where
  "structFieldInfo f =
     (case f of (fname, k, tag0) \<Rightarrow>
       (case parseFlags fname tag0 of
          Inl e \<Rightarrow> Inl e
        | Inr (tag, m) \<Rightarrow>
            if fname = xmlName then
              Inr \<lparr>idx = fname, name = tag, parents = [], flags = m, ftype = k\<rparr>
            else if tag = [] then
              Inr \<lparr>idx = fname,
                   name = (case lookupXMLName k of Some nm \<Rightarrow> nm | None \<Rightarrow> fname),
                   parents = [], flags = m, ftype = k\<rparr>
            else
              let ps0 = Split tag CHR ''>'';
                  ps = (if hd ps0 = [] then fname # tl ps0 else ps0)
              in if last ps = [] then Inl (TagError ''trailing > in field'')
                 else if length ps > 1 \<and> m \<noteq> fElement then Inl (TagError ''chain not valid'')
                 else if m = fElement \<and> lookupXMLName k \<noteq> None
                         \<and> lookupXMLName k \<noteq> Some (last ps)
                   then Inl (TagError ''name in tag conflicts with XMLName'')
                 else Inr \<lparr>idx = fname, name = last ps, parents = butlast ps,
                           flags = m, ftype = k\<rparr>))"

text \<open>
  \<open>addFieldInfo\<close>: a new field conflicts with an old one of the same mode when the
  path of one is a prefix of the path of the other. The structs of the package embed
  no struct, so all fields are at the same depth and a conflict is a \<open>TagPathError\<close>.
\<close>

definition conflicts :: "fieldInfo \<Rightarrow> fieldInfo \<Rightarrow> bool" where
  "conflicts oldf newf =
     (if flags oldf \<noteq> flags newf then False
      else
        let minl = min (length (parents newf)) (length (parents oldf)) in
        if take minl (parents oldf) \<noteq> take minl (parents newf) then False
        else if length (parents oldf) > length (parents newf) then
          parents oldf ! length (parents newf) = name newf
        else if length (parents oldf) < length (parents newf) then
          parents newf ! length (parents oldf) = name oldf
        else name newf = name oldf)"

definition addFieldInfo :: "typeInfo \<Rightarrow> fieldInfo \<Rightarrow> error + typeInfo" where
  "addFieldInfo tinfo newf =
     (if list_ex (\<lambda>oldf. conflicts oldf newf) (tfields tinfo)
      then Inl (TagError ''tag path conflict'')
      else Inr (tinfo\<lparr>tfields := tfields tinfo @ [newf]\<rparr>))"

fun getTypeInfo_fields :: "(string \<times> kind \<times> string) list \<Rightarrow> typeInfo \<Rightarrow> error + typeInfo" where
  "getTypeInfo_fields [] tinfo = Inr tinfo"
| "getTypeInfo_fields (f # fs) tinfo =
     (if snd (snd f) = ''-'' then getTypeInfo_fields fs tinfo
      else case structFieldInfo f of
             Inl e \<Rightarrow> Inl e
           | Inr finfo \<Rightarrow>
               if fst f = xmlName then getTypeInfo_fields fs (tinfo\<lparr>xmlname := Some finfo\<rparr>)
               else (case addFieldInfo tinfo finfo of
                       Inl e \<Rightarrow> Inl e
                     | Inr tinfo' \<Rightarrow> getTypeInfo_fields fs tinfo'))"

fun getTypeInfo :: "kind \<Rightarrow> error + typeInfo" where
  "getTypeInfo (KStruct n fs) = getTypeInfo_fields fs \<lparr>xmlname = None, tfields = []\<rparr>"
| "getTypeInfo k = Inr \<lparr>xmlname = None, tfields = []\<rparr>"

declare getTypeInfo.simps [simp del]


subsection \<open>encoding/xml: read.go\<close>

text \<open>
  \<open>copyValue(dst, src)\<close> for the kinds of the scalar fields of the package. The result
  is the new value of \<open>dst\<close>. \<open>strconv.ParseFloat\<close> is a parameter \<open>pf\<close>, which gives
  the bits of the float64 it parses.
\<close>

type_synonym ParseFloat = "string \<Rightarrow> error + 64 word"

fun copyValue :: "ParseFloat \<Rightarrow> kind \<Rightarrow> string \<Rightarrow> error + gval" where
  "copyValue pf KInt src =
     (if length src = 0 then Inr (VInt 0)
      else case ParseInt (TrimSpace src) of Inl e \<Rightarrow> Inl e | Inr i \<Rightarrow> Inr (VInt i))"
| "copyValue pf KFloat64 src =
     (if length src = 0 then Inr (VFloat 0)
      else case pf (TrimSpace src) of Inl e \<Rightarrow> Inl e | Inr x \<Rightarrow> Inr (VFloat x))"
| "copyValue pf KBool src =
     (if length src = 0 then Inr (VBool False)
      else case ParseBool (TrimSpace src) of Inl e \<Rightarrow> Inl e | Inr b \<Rightarrow> Inr (VBool b))"
| "copyValue pf KString src = Inr (VString src)"
| "copyValue pf k src = Inl (OtherError ''cannot unmarshal into type'')"

text \<open>\<open>finfo.value(sv)\<close> and the assignment to that field.\<close>

fun fieldValue :: "gval \<Rightarrow> fieldInfo \<Rightarrow> gval" where
  "fieldValue (VStruct fs) finfo =
     (case map_of fs (idx finfo) of Some x \<Rightarrow> x | None \<Rightarrow> zero (ftype finfo))"
| "fieldValue sv finfo = zero (ftype finfo)"

fun setField :: "gval \<Rightarrow> string \<Rightarrow> gval \<Rightarrow> gval" where
  "setField (VStruct fs) i x = VStruct (map (\<lambda>(n, y). if n = i then (n, x) else (n, y)) fs)"
| "setField sv i x = sv"

fun elems :: "gval \<Rightarrow> gval list" where
  "elems (VSlice xs) = xs"
| "elems v = []"

text \<open>\<open>Decoder.Skip\<close>: reads to the end of the element; an error on the way is returned.\<close>

fun Skip :: "xml \<Rightarrow> error option"
and Skip_nodes :: "node list \<Rightarrow> error option" where
  "Skip (Elem local as ns) = Skip_nodes ns"
| "Skip_nodes [] = None"
| "Skip_nodes (Fail e # ns) = Some e"
| "Skip_nodes (Child t # ns) = (case Skip t of Some e \<Rightarrow> Some e | None \<Rightarrow> Skip_nodes ns)"
| "Skip_nodes (tok # ns) = Skip_nodes ns"

text \<open>The attributes of the start element: each goes to every \<open>attr\<close> field of its name.\<close>

fun unmarshalAttr :: "ParseFloat \<Rightarrow> fieldInfo list \<Rightarrow> gval \<Rightarrow> string \<times> string \<Rightarrow> gval \<times> error option" where
  "unmarshalAttr pf [] sv a = (sv, None)"
| "unmarshalAttr pf (finfo # fs) sv a =
     (if flags finfo = fAttr \<and> fst a = name finfo then
        (case copyValue pf (ftype finfo) (snd a) of
           Inl e \<Rightarrow> (sv, Some e)
         | Inr x \<Rightarrow> unmarshalAttr pf fs (setField sv (idx finfo) x) a)
      else unmarshalAttr pf fs sv a)"

fun unmarshalAttrs :: "ParseFloat \<Rightarrow> fieldInfo list \<Rightarrow> gval \<Rightarrow> (string \<times> string) list \<Rightarrow> gval \<times> error option" where
  "unmarshalAttrs pf fs sv [] = (sv, None)"
| "unmarshalAttrs pf fs sv (a # as) =
     (case unmarshalAttr pf fs sv a of
        (sv', Some e) \<Rightarrow> (sv', Some e)
      | (sv', None) \<Rightarrow> unmarshalAttrs pf fs sv' as)"

text \<open>The first loop of \<open>unmarshalPath\<close>, over the fields.\<close>

datatype pathMatch = Perfect fieldInfo | Prefix "string list" | NoBusiness

fun findPath :: "fieldInfo list \<Rightarrow> string list \<Rightarrow> string \<Rightarrow> pathMatch" where
  "findPath [] ps local = NoBusiness"
| "findPath (finfo # fs) ps local =
     (if flags finfo \<noteq> fElement \<or> length (parents finfo) < length ps then findPath fs ps local
      else if take (length ps) (parents finfo) \<noteq> ps then findPath fs ps local
      else if length (parents finfo) = length ps \<and> name finfo = local then Perfect finfo
      else if length (parents finfo) > length ps \<and> parents finfo ! length ps = local
        then Prefix (take (length ps + 1) (parents finfo))
      else findPath fs ps local)"

text \<open>The check of the element name against the \<open>XMLName\<close> field, and its assignment.\<close>

definition checkXMLName :: "typeInfo \<Rightarrow> string \<Rightarrow> error option" where
  "checkXMLName tinfo local =
     (case xmlname tinfo of
        None \<Rightarrow> None
      | Some finfo \<Rightarrow>
          if name finfo \<noteq> [] \<and> name finfo \<noteq> local then
            Some (UnmarshalError
              (''expected element type <'' @ name finfo @ ''> but have <'' @ local @ ''>''))
          else None)"

definition assignXMLName :: "typeInfo \<Rightarrow> gval \<Rightarrow> string \<Rightarrow> gval" where
  "assignXMLName tinfo sv local =
     (case xmlname tinfo of
        None \<Rightarrow> sv
      | Some finfo \<Rightarrow> if ftype finfo = KName then setField sv (idx finfo) (VName local) else sv)"

function (sequential) unmarshal :: "ParseFloat \<Rightarrow> kind \<Rightarrow> gval \<Rightarrow> xml \<Rightarrow> gval \<times> error option"
and unmarshal_loop :: "ParseFloat \<Rightarrow> typeInfo option \<Rightarrow> bool \<Rightarrow> gval \<Rightarrow> string \<Rightarrow> node list
      \<Rightarrow> (gval \<times> string) \<times> error option"
and unmarshalPath :: "ParseFloat \<Rightarrow> typeInfo \<Rightarrow> gval \<Rightarrow> string list \<Rightarrow> xml
      \<Rightarrow> (gval \<times> bool) \<times> error option"
and unmarshalPath_loop :: "ParseFloat \<Rightarrow> typeInfo \<Rightarrow> gval \<Rightarrow> string list \<Rightarrow> node list
      \<Rightarrow> gval \<times> error option" where
  "unmarshal pf (KSlice k) val start =
     (case unmarshal pf k (zero k) start of
        (x, Some e) \<Rightarrow> (val, Some e)
      | (x, None) \<Rightarrow> (VSlice (elems val @ [x]), None))"
| "unmarshal pf KName val (Elem local as ns) =
     (case unmarshal_loop pf None False (VName local) [] ns of
        ((v, data), e) \<Rightarrow> (v, e))"
| "unmarshal pf (KStruct n fs) val (Elem local as ns) =
     (case getTypeInfo (KStruct n fs) of
        Inl e \<Rightarrow> (val, Some e)
      | Inr tinfo \<Rightarrow>
          (case checkXMLName tinfo local of
             Some e \<Rightarrow> (val, Some e)
           | None \<Rightarrow>
               (case unmarshalAttrs pf (tfields tinfo) (assignXMLName tinfo val local) as of
                  (sv, Some e) \<Rightarrow> (sv, Some e)
                | (sv, None) \<Rightarrow>
                    let saveData = find (\<lambda>finfo. flags finfo = fCharData) (tfields tinfo) in
                    (case unmarshal_loop pf (Some tinfo) (saveData \<noteq> None) sv [] ns of
                       ((sv', data), Some e) \<Rightarrow> (sv', Some e)
                     | ((sv', data), None) \<Rightarrow>
                         (case saveData of
                            None \<Rightarrow> (sv', None)
                          | Some finfo \<Rightarrow>
                              (case copyValue pf (ftype finfo) data of
                                 Inl e \<Rightarrow> (sv', Some e)
                               | Inr x \<Rightarrow> (setField sv' (idx finfo) x, None)))))))"
| "unmarshal pf k val (Elem local as ns) =
     (case unmarshal_loop pf None True val [] ns of
        ((v, data), Some e) \<Rightarrow> (val, Some e)
      | ((v, data), None) \<Rightarrow>
          (case copyValue pf k data of Inl e \<Rightarrow> (val, Some e) | Inr x \<Rightarrow> (x, None)))"
| "unmarshal_loop pf ti save sv data [] = ((sv, data), None)"
| "unmarshal_loop pf ti save sv data (Fail e # ns) = ((sv, data), Some e)"
| "unmarshal_loop pf ti save sv data (Child t # ns) =
     (case ti of
        None \<Rightarrow>
          (case Skip t of
             Some e \<Rightarrow> ((sv, data), Some e)
           | None \<Rightarrow> unmarshal_loop pf ti save sv data ns)
      | Some tinfo \<Rightarrow>
          (case unmarshalPath pf tinfo sv [] t of
             ((sv', consumed), Some e) \<Rightarrow> ((sv', data), Some e)
           | ((sv', consumed), None) \<Rightarrow>
               if \<not> consumed then
                 (case Skip t of
                    Some e \<Rightarrow> ((sv', data), Some e)
                  | None \<Rightarrow> unmarshal_loop pf ti save sv' data ns)
               else unmarshal_loop pf ti save sv' data ns))"
| "unmarshal_loop pf ti save sv data (CharData s # ns) =
     unmarshal_loop pf ti save sv (if save then data @ s else data) ns"
| "unmarshal_loop pf ti save sv data (tok # ns) = unmarshal_loop pf ti save sv data ns"
| "unmarshalPath pf tinfo sv ps (Elem local as ns) =
     (case findPath (tfields tinfo) ps local of
        Perfect finfo \<Rightarrow>
          (case unmarshal pf (ftype finfo) (fieldValue sv finfo) (Elem local as ns) of
             (x, e) \<Rightarrow> ((setField sv (idx finfo) x, True), e))
      | Prefix ps' \<Rightarrow>
          (case unmarshalPath_loop pf tinfo sv ps' ns of (sv', e) \<Rightarrow> ((sv', True), e))
      | NoBusiness \<Rightarrow> ((sv, False), None))"
| "unmarshalPath_loop pf tinfo sv ps [] = (sv, None)"
| "unmarshalPath_loop pf tinfo sv ps (Fail e # ns) = (sv, Some e)"
| "unmarshalPath_loop pf tinfo sv ps (Child t # ns) =
     (case unmarshalPath pf tinfo sv ps t of
        ((sv', consumed2), Some e) \<Rightarrow> (sv', Some e)
      | ((sv', consumed2), None) \<Rightarrow>
          if \<not> consumed2 then
            (case Skip t of
               Some e \<Rightarrow> (sv', Some e)
             | None \<Rightarrow> unmarshalPath_loop pf tinfo sv' ps ns)
          else unmarshalPath_loop pf tinfo sv' ps ns)"
| "unmarshalPath_loop pf tinfo sv ps (tok # ns) = unmarshalPath_loop pf tinfo sv ps ns"
  by pat_completeness auto
termination
  by (relation "inv_image (less_than <*lex*> less_than <*lex*> less_than)
       (\<lambda>x. case x of
          Inl (Inl (pf, k, val, start)) \<Rightarrow> (size start, 0::nat, size k)
        | Inl (Inr (pf, ti, save, sv, data, ns)) \<Rightarrow> (size_list size ns, 0, 0)
        | Inr (Inl (pf, tinfo, sv, ps, t)) \<Rightarrow> (size t, 1, 0)
        | Inr (Inr (pf, tinfo, sv, ps, ns)) \<Rightarrow> (size_list size ns, 0, 0))")
     auto


subsection \<open>The result structs\<close>

definition Message_type :: kind where
  "Message_type = KStruct ''Message''
     [(''Text'', KString, ''text''),
      (''Code'', KInt, ''code''),
      (''LimitWarning'', KBool, ''limit-warning'')]"

definition Address_type :: kind where
  "Address_type = KStruct ''Address''
     [(''Street'', KString, ''street''),
      (''Zipcode'', KString, ''zipcode''),
      (''City'', KString, ''city''),
      (''State'', KString, ''state''),
      (''Latitude'', KFloat64, ''latitude''),
      (''Longitude'', KFloat64, ''longitude'')]"

definition Value_type :: kind where
  "Value_type = KStruct ''Value''
     [(''Currency'', KString, ''currency,attr''),
      (''Value'', KInt, '',chardata'')]"

definition ValueChange_type :: kind where
  "ValueChange_type = KStruct ''ValueChange''
     [(''Duration'', KInt, ''duration,attr''),
      (''Currency'', KString, ''currency,attr''),
      (''Value'', KInt, '',chardata'')]"

definition Zestimate_type :: kind where
  "Zestimate_type = KStruct ''Zestimate''
     [(''Amount'', Value_type, ''amount''),
      (''LastUpdated'', KString, ''last-updated''),
      (''ValueChange'', ValueChange_type, ''valueChange''),
      (''Low'', Value_type, ''valuationRange>low''),
      (''High'', Value_type, ''valuationRange>high''),
      (''Percentile'', KString, ''percentile'')]"

definition ZestimateRequest_type :: kind where
  "ZestimateRequest_type = KStruct ''ZestimateRequest''
     [(''Zpid'', KString, ''zpid''),
      (''Rentzestimate'', KBool, ''rentzestimate'')]"

definition Region_type :: kind where
  "Region_type = KStruct ''Region''
     [(''XMLName'', KName, ''region''),
      (''ID'', KString, ''id,attr''),
      (''Type'', KString, ''type,attr''),
      (''Name'', KString, ''name,attr''),
      (''ZIndex'', KString, ''zindexValue''),
      (''ZIndexOneYearChange'', KFloat64, ''zindexOneYearChange''),
      (''Overview'', KString, ''links>overview''),
      (''ForSaleByOwner'', KString, ''links>forSaleByOwner''),
      (''ForSale'', KString, ''links>forSale'')]"

definition Links_type :: kind where
  "Links_type = KStruct ''Links''
     [(''XMLName'', KName, ''links''),
      (''HomeDetails'', KString, ''homedetails''),
      (''GraphsAndData'', KString, ''graphsanddata''),
      (''MapThisHome'', KString, ''mapthishome''),
      (''MyZestimator'', KString, ''myzestimator''),
      (''Comparables'', KString, ''comparables'')]"

definition ZestimateResult_type :: kind where
  "ZestimateResult_type = KStruct ''ZestimateResult''
     [(''XMLName'', KName, ''zestimate''),
      (''Request'', ZestimateRequest_type, ''request''),
      (''Message'', Message_type, ''message''),
      (''Links'', Links_type, ''response>links''),
      (''Address'', Address_type, ''response>address''),
      (''Zestimate'', Zestimate_type, ''response>zestimate''),
      (''LocalRealEstate'', KSlice Region_type, ''response>localRealEstate>region''),
      (''ZipcodeID'', KString, ''response>regions>zipcode-id''),
      (''CityID'', KString, ''response>regions>city-id''),
      (''CountyID'', KString, ''response>regions>county-id''),
      (''StateID'', KString, ''response>regions>state-id'')]"

definition SearchRequest_type :: kind where
  "SearchRequest_type = KStruct ''SearchRequest''
     [(''Address'', KString, ''address''),
      (''CityStateZip'', KString, ''citystatezip''),
      (''Rentzestimate'', KBool, ''rentzestimate'')]"

definition SearchResult_type :: kind where
  "SearchResult_type = KStruct ''SearchResult''
     [(''XMLName'', KName, ''result''),
      (''Zpid'', KString, ''zpid''),
      (''Links'', Links_type, ''links''),
      (''Address'', Address_type, ''address''),
      (''Zestimate'', Zestimate_type, ''zestimate''),
      (''LocalRealEstate'', KSlice Region_type, ''localRealEstate>region'')]"

definition SearchResults_type :: kind where
  "SearchResults_type = KStruct ''SearchResults''
     [(''XMLName'', KName, ''searchresults''),
      (''Request'', SearchRequest_type, ''request''),
      (''Message'', Message_type, ''message''),
      (''Results'', KSlice SearchResult_type, ''response>results>result'')]"

definition ChartRequest_type :: kind where
  "ChartRequest_type = KStruct ''ChartRequest''
     [(''Zpid'', KString, ''zpid''),
      (''UnitType'', KString, ''unit-type''),
      (''Width'', KInt, ''width''),
      (''Height'', KInt, ''height''),
      (''Duration'', KString, ''chartDuration'')]"

definition ChartResult_type :: kind where
  "ChartResult_type = KStruct ''ChartResult''
     [(''XMLName'', KName, ''chart''),
      (''Request'', ChartRequest_type, ''request''),
      (''Message'', Message_type, ''message''),
      (''Url'', KString, ''response>url'')]"

definition CompsRequest_type :: kind where
  "CompsRequest_type = KStruct ''CompsRequest''
     [(''Zpid'', KString, ''zpid''),
      (''Count'', KInt, ''count''),
      (''Rentzestimate'', KBool, ''rentzestimate'')]"

definition Principal_type :: kind where
  "Principal_type = KStruct ''Principal''
     [(''Zpid'', KString, ''zpid''),
      (''Links'', Links_type, ''links''),
      (''Address'', Address_type, ''address''),
      (''Zestimate'', Zestimate_type, ''zestimate'')]"

definition Comp_type :: kind where
  "Comp_type = KStruct ''Comp''
     [(''Score'', KFloat64, ''score,attr''),
      (''Zpid'', KString, ''zpid''),
      (''Links'', Links_type, ''links''),
      (''Address'', Address_type, ''address''),
      (''Zestimate'', Zestimate_type, ''zestimate'')]"

definition CompsResult_type :: kind where
  "CompsResult_type = KStruct ''CompsResult''
     [(''XMLName'', KName, ''comps''),
      (''Request'', CompsRequest_type, ''request''),
      (''Message'', Message_type, ''message''),
      (''Principal'', Principal_type, ''response>properties>principal''),
      (''Comparables'', KSlice Comp_type, ''response>properties>comparables>comp'')]"

subsection \<open>Decoder.Decode\<close>

text \<open>
  The body of a response is the sequence of tokens that \<open>Decoder.Token\<close> returns for it,
  as a forest: the content of an element is the list of its nodes up to its end tag.
  A \<open>Fail\<close> node is the place where \<open>Token\<close> returns an error (a syntax error, or the
  end of the input inside an element); at the top level the end of the list is \<open>io.EOF\<close>.
\<close>

type_synonym body = "node list"

fun findStart :: "body \<Rightarrow> error + xml" where
  "findStart [] = Inl EOF"
| "findStart (Fail e # ns) = Inl e"
| "findStart (Child t # ns) = Inr t"
| "findStart (tok # ns) = findStart ns"

definition Decode :: "ParseFloat \<Rightarrow> kind \<Rightarrow> body \<Rightarrow> gval \<Rightarrow> gval \<times> error option" where
  "Decode pf k b val =
     (case findStart b of
        Inl e \<Rightarrow> (val, Some e)
      | Inr start \<Rightarrow> unmarshal pf k val start)"

subsection \<open>The HTTP round trip and the shared routine\<close>

text \<open>
  The network is a state: \<open>respond\<close> is what \<open>http.Get\<close> returns for a URL (an error,
  or a response with its status code and its body), and \<open>sent\<close> is the list of the
  URLs requested so far.
\<close>

record Response =
  StatusCode :: int
  Body :: body

record World =
  respond :: "string \<Rightarrow> error + Response"
  sent :: "string list"

definition http_Get :: "World \<Rightarrow> string \<Rightarrow> (error + Response) \<times> World" where
  "http_Get w u = (respond w u, w\<lparr>sent := sent w @ [u]\<rparr>)"

text \<open>
  \<open>get\<close> writes into \<open>result\<close> through a pointer and returns the error; the model
  returns the value of \<open>result\<close> after the call beside the error.
\<close>

definition get :: "ParseFloat \<Rightarrow> World \<Rightarrow> zillow \<Rightarrow> string \<Rightarrow> Values \<Rightarrow> kind \<Rightarrow> gval
    \<Rightarrow> (gval \<times> error option) \<times> World" where
  "get pf w z servicePath values k result =
     (case http_Get w (url z @ ''/'' @ servicePath @ ''.htm?'' @ Encode values) of
        (Inl err, w') \<Rightarrow> ((result, Some err), w')
      | (Inr resp, w') \<Rightarrow> (Decode pf k (Body resp) result, w'))"

subsection \<open>The four operations\<close>

text \<open>The map literal \<open>values\<close> of each operation.\<close>

definition GetZestimate_values :: "zillow \<Rightarrow> ZestimateRequest \<Rightarrow> Values" where
  "GetZestimate_values z request =
     [(zwsIdParam, [zwsId z]),
      (zpidParam, [ZestimateRequest.Zpid request]),
      (rentzestimateParam, [FormatBool (ZestimateRequest.Rentzestimate request)])]"

definition GetSearchResults_values :: "zillow \<Rightarrow> SearchRequest \<Rightarrow> Values" where
  "GetSearchResults_values z request =
     [(zwsIdParam, [zwsId z]),
      (addressParam, [Address request]),
      (cityStateZipParam, [CityStateZip request]),
      (rentzestimateParam, [FormatBool (SearchRequest.Rentzestimate request)])]"

definition GetChart_values :: "zillow \<Rightarrow> ChartRequest \<Rightarrow> Values" where
  "GetChart_values z request =
     [(zwsIdParam, [zwsId z]),
      (zpidParam, [ChartRequest.Zpid request]),
      (unitTypeParam, [UnitType request]),
      (widthParam, [Itoa (Width request)]),
      (heightParam, [Itoa (Height request)]),
      (chartDurationParam, [Duration request])]"

definition GetComps_values :: "zillow \<Rightarrow> CompsRequest \<Rightarrow> Values" where
  "GetComps_values z request =
     [(zwsIdParam, [zwsId z]),
      (zpidParam, [CompsRequest.Zpid request]),
      (countParam, [Itoa (Count request)]),
      (rentzestimateParam, [FormatBool (CompsRequest.Rentzestimate request)])]"

text \<open>
  The end of each operation: \<open>nil, err\<close> when \<open>get\<close> returns an error, \<open>&result, nil\<close>
  otherwise. A result pointer is an \<open>option\<close>; \<open>None\<close> is \<open>nil\<close>.
\<close>

definition GetZestimate :: "ParseFloat \<Rightarrow> World \<Rightarrow> zillow \<Rightarrow> ZestimateRequest
    \<Rightarrow> (gval option \<times> error option) \<times> World" where
  "GetZestimate pf w z request =
     (let values = GetZestimate_values z request;
          result = zero ZestimateResult_type
      in case get pf w z getZestimatePath values ZestimateResult_type result of
           ((result', Some err), w') \<Rightarrow> ((None, Some err), w')
         | ((result', None), w') \<Rightarrow> ((Some result', None), w'))"

definition GetSearchResults :: "ParseFloat \<Rightarrow> World \<Rightarrow> zillow \<Rightarrow> SearchRequest
    \<Rightarrow> (gval option \<times> error option) \<times> World" where
  "GetSearchResults pf w z request =
     (let values = GetSearchResults_values z request;
          result = zero SearchResults_type
      in case get pf w z getSearchResults values SearchResults_type result of
           ((result', Some err), w') \<Rightarrow> ((None, Some err), w')
         | ((result', None), w') \<Rightarrow> ((Some result', None), w'))"

definition GetChart :: "ParseFloat \<Rightarrow> World \<Rightarrow> zillow \<Rightarrow> ChartRequest
    \<Rightarrow> (gval option \<times> error option) \<times> World" where
  "GetChart pf w z request =
     (let values = GetChart_values z request;
          result = zero ChartResult_type
      in case get pf w z getChart values ChartResult_type result of
           ((result', Some err), w') \<Rightarrow> ((None, Some err), w')
         | ((result', None), w') \<Rightarrow> ((Some result', None), w'))"

definition GetComps :: "ParseFloat \<Rightarrow> World \<Rightarrow> zillow \<Rightarrow> CompsRequest
    \<Rightarrow> (gval option \<times> error option) \<times> World" where
  "GetComps pf w z request =
     (let values = GetComps_values z request;
          result = zero CompsResult_type
      in case get pf w z getComps values CompsResult_type result of
           ((result', Some err), w') \<Rightarrow> ((None, Some err), w')
         | ((result', None), w') \<Rightarrow> ((Some result', None), w'))"

subsection \<open>Stub responses\<close>

text \<open>
  Documents for the scenarios below, after the sample responses of the web service. An
  element with text only is a \<open>leaf\<close>; \<open>ws\<close> is the white space between two elements.
\<close>

definition leaf :: "string \<Rightarrow> string \<Rightarrow> node" where
  "leaf nm s = Child (Elem nm [] [CharData s])"

definition ws :: node where
  "ws = CharData [char_of (10::nat), CHR '' '', CHR '' '']"

definition value_xml :: "string \<Rightarrow> string \<Rightarrow> string \<Rightarrow> node" where
  "value_xml nm currency amount = Child (Elem nm [(''currency'', currency)] [CharData amount])"

definition request_nodes :: "string \<Rightarrow> node list" where
  "request_nodes zpid = [ws, leaf ''zpid'' zpid, ws]"

definition message_nodes :: "string \<Rightarrow> string \<Rightarrow> node list" where
  "message_nodes text code = [ws, leaf ''text'' text, ws, leaf ''code'' code, ws]"

definition links_nodes :: "string \<Rightarrow> node list" where
  "links_nodes zpid =
     [ws, leaf ''homedetails'' (''http://www.zillow.com/homedetails/'' @ zpid @ ''_zpid/''),
      ws, leaf ''graphsanddata'' (''http://www.zillow.com/homedetails/charts/'' @ zpid @ ''_zpid/''),
      ws, leaf ''mapthishome'' (''http://www.zillow.com/homes/map/'' @ zpid @ ''_zpid/''),
      ws, leaf ''comparables'' (''http://www.zillow.com/homes/comps/'' @ zpid @ ''_zpid/''),
      ws]"

definition address_nodes :: "string \<Rightarrow> node list" where
  "address_nodes street =
     [ws, leaf ''street'' street,
      ws, leaf ''zipcode'' ''98109'',
      ws, leaf ''city'' ''Seattle'',
      ws, leaf ''state'' ''WA'',
      ws, leaf ''latitude'' ''47.637933'',
      ws, leaf ''longitude'' ''-122.347938'',
      ws]"

definition zestimate_nodes :: "string \<Rightarrow> string \<Rightarrow> string \<Rightarrow> node list" where
  "zestimate_nodes amount low high =
     [ws, value_xml ''amount'' ''USD'' amount,
      ws, leaf ''last-updated'' ''01/03/2011'',
      ws, Child (Elem ''oneWeekChange'' [(''deprecated'', ''true'')] []),
      ws, Child (Elem ''valueChange'' [(''duration'', ''30''), (''currency'', ''USD'')]
                  [CharData ''-1000'']),
      ws, Child (Elem ''valuationRange'' []
                  [ws, value_xml ''low'' ''USD'' low, ws, value_xml ''high'' ''USD'' high, ws]),
      ws, leaf ''percentile'' ''0'',
      ws]"

definition region_nodes :: "node list" where
  "region_nodes =
     [ws, leaf ''zindexValue'' ''525,397'',
      ws, leaf ''zindexOneYearChange'' ''-0.144'',
      ws, Child (Elem ''links'' []
                  [ws, leaf ''overview'' ''http://www.zillow.com/local-info/WA-Seattle/r_271856/'',
                   ws, leaf ''forSaleByOwner'' ''http://www.zillow.com/homes/fsbo/r_271856/'',
                   ws, leaf ''forSale'' ''http://www.zillow.com/homes/for_sale/r_271856/'',
                   ws]),
      ws]"

definition zestimate_response_nodes :: "node list" where
  "zestimate_response_nodes =
     [ws, leaf ''zpid'' ''48749425'',
      ws, Child (Elem ''links'' [] (links_nodes ''48749425'')),
      ws, Child (Elem ''address'' [] (address_nodes ''2114 Bigelow Ave N'')),
      ws, Child (Elem ''zestimate'' [] (zestimate_nodes ''258000'' ''231000'' ''278000'')),
      ws, Child (Elem ''localRealEstate'' []
                  [ws, Child (Elem ''region''
                         [(''id'', ''271856''), (''type'', ''neighborhood''),
                          (''name'', ''East Queen Anne'')] region_nodes),
                   ws]),
      ws, Child (Elem ''regions'' []
                  [ws, leaf ''zipcode-id'' ''99569'', ws, leaf ''city-id'' ''16037'',
                   ws, leaf ''county-id'' ''207'', ws, leaf ''state-id'' ''59'', ws]),
      ws]"

text \<open>The response to \<open>GetZestimate\<close> for the property 48749425.\<close>

definition zestimate_stub :: body where
  "zestimate_stub =
     [ProcInst ''xml'' ''version=1.0 encoding=utf-8'',
      Child (Elem ''zestimate''
        [(''schemaLocation'', ''http://www.zillow.com/static/xsd/Zestimate.xsd'')]
        [ws, Child (Elem ''request'' [] (request_nodes ''48749425'')),
         ws, Child (Elem ''message'' [] (message_nodes ''Request successfully processed'' ''0'')),
         ws, Child (Elem ''response'' [] zestimate_response_nodes),
         ws]),
      Comment ''H:001  T:27ms  S:1563'']"

text \<open>A property of the comparables response: the content of \<open>principal\<close> or of a \<open>comp\<close>.\<close>

definition property_nodes :: "string \<Rightarrow> string \<Rightarrow> string \<Rightarrow> node list" where
  "property_nodes zpid street amount =
     [ws, leaf ''zpid'' zpid,
      ws, Child (Elem ''links'' [] (links_nodes zpid)),
      ws, Child (Elem ''address'' [] (address_nodes street)),
      ws, Child (Elem ''zestimate'' [] (zestimate_nodes amount ''231000'' ''278000'')),
      ws]"

definition comp_xml :: "string \<Rightarrow> string \<Rightarrow> string \<Rightarrow> string \<Rightarrow> node" where
  "comp_xml score zpid street amount =
     Child (Elem ''comp'' [(''score'', score)] (property_nodes zpid street amount))"

text \<open>
  The response to \<open>GetComps\<close>: one principal and the five comparables \<open>cs\<close>, each given
  by its score attribute and its property identifier.
\<close>

definition comps_stub :: "(string \<times> string) list \<Rightarrow> body" where
  "comps_stub cs =
     [ProcInst ''xml'' ''version=1.0 encoding=utf-8'',
      Child (Elem ''comps'' [(''schemaLocation'', ''http://www.zillow.com/static/xsd/Comps.xsd'')]
        [ws, Child (Elem ''request'' [] [ws, leaf ''zpid'' ''48749425'', ws, leaf ''count'' ''5'', ws]),
         ws, Child (Elem ''message'' [] (message_nodes ''Request successfully processed'' ''0'')),
         ws, Child (Elem ''response'' []
               [ws, Child (Elem ''properties'' []
                  [ws, Child (Elem ''principal'' []
                         (property_nodes ''48749425'' ''2114 Bigelow Ave N'' ''258000'')),
                   ws, Child (Elem ''comparables'' []
                         (map (\<lambda>(score, zpid). comp_xml score zpid ''2118 Bigelow Ave N'' ''260000'') cs)),
                   ws]),
                ws]),
         ws])]"

text \<open>\<open>r.F1.F2...\<close>: the field of a result along a path of field names.\<close>

fun getPath :: "gval \<Rightarrow> string list \<Rightarrow> gval option" where
  "getPath v [] = Some v"
| "getPath (VStruct fs) (f # p) =
     (case map_of fs f of None \<Rightarrow> None | Some x \<Rightarrow> getPath x p)"
| "getPath v (f # p) = None"


subsection \<open>What the stub responses decode to\<close>

definition links_value :: "string \<Rightarrow> gval" where
  "links_value zpid = VStruct
     [(''XMLName'', VName ''links''),
      (''HomeDetails'', VString (''http://www.zillow.com/homedetails/'' @ zpid @ ''_zpid/'')),
      (''GraphsAndData'',
         VString (''http://www.zillow.com/homedetails/charts/'' @ zpid @ ''_zpid/'')),
      (''MapThisHome'', VString (''http://www.zillow.com/homes/map/'' @ zpid @ ''_zpid/'')),
      (''MyZestimator'', VString []),
      (''Comparables'', VString (''http://www.zillow.com/homes/comps/'' @ zpid @ ''_zpid/''))]"

definition address_value :: "string \<Rightarrow> 64 word \<Rightarrow> 64 word \<Rightarrow> gval" where
  "address_value street lat lon = VStruct
     [(''Street'', VString street), (''Zipcode'', VString ''98109''),
      (''City'', VString ''Seattle''), (''State'', VString ''WA''),
      (''Latitude'', VFloat lat), (''Longitude'', VFloat lon)]"

definition zestimate_value :: "64 word \<Rightarrow> 64 word \<Rightarrow> 64 word \<Rightarrow> gval" where
  "zestimate_value amount low high = VStruct
     [(''Amount'', VStruct [(''Currency'', VString ''USD''), (''Value'', VInt amount)]),
      (''LastUpdated'', VString ''01/03/2011''),
      (''ValueChange'',
         VStruct [(''Duration'', VInt 30), (''Currency'', VString ''USD''),
                  (''Value'', VInt (- 1000))]),
      (''Low'', VStruct [(''Currency'', VString ''USD''), (''Value'', VInt low)]),
      (''High'', VStruct [(''Currency'', VString ''USD''), (''Value'', VInt high)]),
      (''Percentile'', VString ''0'')]"

definition region_value :: "64 word \<Rightarrow> gval" where
  "region_value change = VStruct
     [(''XMLName'', VName ''region''), (''ID'', VString ''271856''),
      (''Type'', VString ''neighborhood''), (''Name'', VString ''East Queen Anne''),
      (''ZIndex'', VString ''525,397''), (''ZIndexOneYearChange'', VFloat change),
      (''Overview'', VString ''http://www.zillow.com/local-info/WA-Seattle/r_271856/''),
      (''ForSaleByOwner'', VString ''http://www.zillow.com/homes/fsbo/r_271856/''),
      (''ForSale'', VString ''http://www.zillow.com/homes/for_sale/r_271856/'')]"

definition message_value :: "string \<Rightarrow> 64 word \<Rightarrow> gval" where
  "message_value text code =
     VStruct [(''Text'', VString text), (''Code'', VInt code), (''LimitWarning'', VBool False)]"

definition zestimate_stub_value :: "64 word \<Rightarrow> 64 word \<Rightarrow> 64 word \<Rightarrow> gval" where
  "zestimate_stub_value lat lon change = VStruct
     [(''XMLName'', VName ''zestimate''),
      (''Request'', VStruct [(''Zpid'', VString ''48749425''), (''Rentzestimate'', VBool False)]),
      (''Message'', message_value ''Request successfully processed'' 0),
      (''Links'', links_value ''48749425''),
      (''Address'', address_value ''2114 Bigelow Ave N'' lat lon),
      (''Zestimate'', zestimate_value 258000 231000 278000),
      (''LocalRealEstate'', VSlice [region_value change]),
      (''ZipcodeID'', VString ''99569''), (''CityID'', VString ''16037''),
      (''CountyID'', VString ''207''), (''StateID'', VString ''59'')]"

definition property_value :: "string \<Rightarrow> string \<Rightarrow> 64 word \<Rightarrow> 64 word \<Rightarrow> 64 word
    \<Rightarrow> (string \<times> gval) list" where
  "property_value zpid street amount lat lon =
     [(''Zpid'', VString zpid),
      (''Links'', links_value zpid),
      (''Address'', address_value street lat lon),
      (''Zestimate'', zestimate_value amount 231000 278000)]"

definition comp_value :: "64 word \<Rightarrow> 64 word \<Rightarrow> string \<times> string \<Rightarrow> 64 word \<Rightarrow> gval" where
  "comp_value lat lon c score =
     VStruct ((''Score'', VFloat score)
              # property_value (snd c) ''2118 Bigelow Ave N'' 260000 lat lon)"

definition comps_stub_value :: "64 word \<Rightarrow> 64 word \<Rightarrow> (string \<times> string) list \<Rightarrow> 64 word list
    \<Rightarrow> gval" where
  "comps_stub_value lat lon cs scores = VStruct
     [(''XMLName'', VName ''comps''),
      (''Request'', VStruct [(''Zpid'', VString ''48749425''), (''Count'', VInt 5),
                             (''Rentzestimate'', VBool False)]),
      (''Message'', message_value ''Request successfully processed'' 0),
      (''Principal'',
         VStruct (property_value ''48749425'' ''2114 Bigelow Ave N'' 258000 lat lon)),
      (''Comparables'', VSlice (map2 (comp_value lat lon) cs scores))]"

text \<open>
  A response that reports an application-level error in its message block, as the web
  service does for a wrong key: a root element with the message only.
\<close>

definition error_stub :: "string \<Rightarrow> body" where
  "error_stub root =
     [ProcInst ''xml'' ''version=1.0 encoding=utf-8'',
      Child (Elem root []
        [ws, Child (Elem ''message'' []
               (message_nodes ''Error: invalid or missing ZWSID parameter'' ''2'')),
         ws])]"


text \<open>
  The floats of the stubs, for closed examples: \<open>strconv.ParseFloat\<close> on the strings that
  occur in them, with the bits of the float64 values.
\<close>

definition stubParseFloat :: ParseFloat where
  "stubParseFloat s =
     (case map_of
        [(''47.637933'', 0x4047D1A7C9DE0503), (''-122.347938'', 0xC05E96449DBEC248),
         (''-0.144'', 0xBFC26E978D4FDF3B), (''9.0'', 0x4022000000000000),
         (''8.0'', 0x4020000000000000), (''7.0'', 0x401C000000000000),
         (''6.0'', 0x4018000000000000), (''5.0'', 0x4014000000000000)] s of
        Some bits \<Rightarrow> Inr bits
      | None \<Rightarrow> Inl (NumError ''ParseFloat'' s ErrSyntax))"

text \<open>A network that answers every request with the same response, or refuses it.\<close>

definition answering :: "int \<Rightarrow> body \<Rightarrow> World" where
  "answering status b = \<lparr>respond = (\<lambda>u. Inr \<lparr>StatusCode = status, Body = b\<rparr>), sent = []\<rparr>"

definition refusing :: World where
  "refusing = \<lparr>respond = (\<lambda>u. Inl (NetError ''dial tcp: connection refused'')), sent = []\<rparr>"

subsection \<open>Notions for the statements\<close>

text \<open>
  The settings of a \<open>url.Values\<close> map: its pairs \<open>(key, value)\<close>, by ascending key and,
  for one key, in the order of its values.
\<close>

definition settings :: "Values \<Rightarrow> (string \<times> string) list" where
  "settings v = concat (map (\<lambda>k. map (Pair k) (lookup v k)) (sort (remdups (map fst v))))"

definition setting :: "string \<times> string \<Rightarrow> string" where
  "setting p = QueryEscape (fst p) @ ''='' @ QueryEscape (snd p)"

fun joinq :: "string list \<Rightarrow> string" where
  "joinq [] = []"
| "joinq [s] = s"
| "joinq (s # t # ss) = s @ ''&'' @ joinq (t # ss)"

text \<open>The URL that each operation requests.\<close>

abbreviation zestimateURL :: "zillow \<Rightarrow> ZestimateRequest \<Rightarrow> string" where
  "zestimateURL z r \<equiv>
     url z @ ''/'' @ getZestimatePath @ ''.htm?'' @ Encode (GetZestimate_values z r)"

abbreviation searchURL :: "zillow \<Rightarrow> SearchRequest \<Rightarrow> string" where
  "searchURL z r \<equiv>
     url z @ ''/'' @ getSearchResults @ ''.htm?'' @ Encode (GetSearchResults_values z r)"

abbreviation chartURL :: "zillow \<Rightarrow> ChartRequest \<Rightarrow> string" where
  "chartURL z r \<equiv> url z @ ''/'' @ getChart @ ''.htm?'' @ Encode (GetChart_values z r)"

abbreviation compsURL :: "zillow \<Rightarrow> CompsRequest \<Rightarrow> string" where
  "compsURL z r \<equiv> url z @ ''/'' @ getComps @ ''.htm?'' @ Encode (GetComps_values z r)"

text \<open>The result for \<open>error_stub\<close>: the root's name and the message block, all else zero.\<close>

definition error_stub_value :: "kind \<Rightarrow> string \<Rightarrow> gval" where
  "error_stub_value k root =
     setField (setField (zero k) ''XMLName'' (VName root)) ''Message''
       (message_value ''Error: invalid or missing ZWSID parameter'' 2)"




text \<open>A byte that is no white space, first or last in a string that \<open>TrimSpace\<close> keeps.\<close>

definition plain :: "char \<Rightarrow> bool" where
  "plain c = (of_char c < (128::nat) \<and> (of_char c :: nat) \<notin> {9, 10, 11, 12, 13, 32})"

definition fi :: "string \<Rightarrow> string \<Rightarrow> string list \<Rightarrow> fmode \<Rightarrow> kind \<Rightarrow> fieldInfo" where
  "fi i n ps m k = \<lparr>idx = i, name = n, parents = ps, flags = m, ftype = k\<rparr>"

section \<open>Properties\<close>

subsection \<open>Numbers as decimal strings\<close>

lemma digits_nth:
  assumes "d < 10"
  shows "isDigit (digits ! d) \<and> of_char (digits ! d) - of_char CHR ''0'' = d
         \<and> digits ! d \<noteq> CHR ''+'' \<and> digits ! d \<noteq> CHR ''-'' \<and> \<not> shouldEscape (digits ! d)"
proof -
  have all: "list_all (\<lambda>d. isDigit (digits ! d) \<and> of_char (digits ! d) - of_char CHR ''0'' = d
         \<and> digits ! d \<noteq> CHR ''+'' \<and> digits ! d \<noteq> CHR ''-'' \<and> \<not> shouldEscape (digits ! d))
       [0, 1, 2, 3, 4, 5, 6, 7, 8, 9]"
    by (simp add: digits_def isDigit_def shouldEscape_def)
  from assms have "d \<in> set [0, 1, 2, 3, 4, 5, 6, 7, 8, 9]"
    by simp arith
  with all show ?thesis
    unfolding list_all_iff by blast
qed

lemma ParseUint_loop_append:
  "ParseUint_loop (s @ t) n =
     (case ParseUint_loop s n of Inl e \<Rightarrow> Inl e | Inr m \<Rightarrow> ParseUint_loop t m)"
  by (induction s arbitrary: n) (auto simp: Let_def)

lemma ParseUint_loop_digit:
  "d < 10 \<Longrightarrow> n * 10 + d \<le> 18446744073709551615 \<Longrightarrow>
   ParseUint_loop [digits ! d] n = Inr (n * 10 + d)"
  using digits_nth[of d] by (auto simp: Let_def)

lemma ParseUint_loop_formatBits10:
  "u \<le> 18446744073709551615 \<Longrightarrow> ParseUint_loop (formatBits10 u) 0 = Inr u"
proof (induction u rule: formatBits10.induct)
  case (1 u)
  show ?case
  proof (cases "u < 10")
    case True
    then show ?thesis
      using ParseUint_loop_digit[of u 0] by (subst formatBits10.simps) simp
  next
    case False
    have d: "u mod 10 < 10" by simp
    have le: "u div 10 \<le> 18446744073709551615" using 1(2) by arith
    have eq: "u div 10 * 10 + u mod 10 = u" by simp
    have "ParseUint_loop (formatBits10 (u div 10)) 0 = Inr (u div 10)"
      using 1(1)[OF False le] .
    moreover have "ParseUint_loop [digits ! (u mod 10)] (u div 10) = Inr u"
      using ParseUint_loop_digit[OF d, of "u div 10"] 1(2) eq by simp
    ultimately show ?thesis
      using False by (subst formatBits10.simps) (simp add: ParseUint_loop_append)
  qed
qed

lemma formatBits10_hd:
  "formatBits10 u \<noteq> [] \<and> (\<exists>d < 10. hd (formatBits10 u) = digits ! d)"
proof (induction u rule: formatBits10.induct)
  case (1 u)
  show ?case
  proof (cases "u < 10")
    case True
    then show ?thesis by (subst (1 2) formatBits10.simps) auto
  next
    case False
    with 1 show ?thesis by (subst (1 2) formatBits10.simps) auto
  qed
qed

lemma ParseUint_formatBits10:
  "u \<le> 18446744073709551615 \<Longrightarrow> ParseUint (formatBits10 u) = Inr u"
  using formatBits10_hd[of u] by (simp add: ParseUint_def ParseUint_loop_formatBits10)

lemma sint_neg_iff: "sint (i :: 64 word) < 0 \<longleftrightarrow> uint i \<ge> 9223372036854775808"
proof -
  have "sint i < 0 \<longleftrightarrow> bit (uint i) 63"
    using bit_last_iff[of i] by (simp add: bit_uint_iff)
  also have "\<dots> \<longleftrightarrow> odd (uint i div 2 ^ 63)"
    by (simp add: bit_iff_odd_drop_bit drop_bit_eq_div)
  also have "\<dots> \<longleftrightarrow> uint i \<ge> 9223372036854775808"
  proof -
    have "0 \<le> uint i" "uint i < 18446744073709551616"
      using uint_lt2p[of i] by simp_all
    then have "uint i div 2 ^ 63 = (if uint i \<ge> 9223372036854775808 then 1 else 0)"
      by simp arith
    then show ?thesis by simp
  qed
  finally show ?thesis .
qed

lemma unat_nonneg: "\<not> sint (i :: 64 word) < 0 \<Longrightarrow> unat i < 9223372036854775808"
  by (simp add: sint_neg_iff unat_eq_nat_uint del: nat_uint_eq) 

lemma unat_minus_neg: "sint (i :: 64 word) < 0 \<Longrightarrow> unat (- i) \<le> 9223372036854775808"
proof -
  assume "sint i < 0"
  then have 1: "uint i \<ge> 9223372036854775808" by (simp add: sint_neg_iff)
  have 2: "uint i < 18446744073709551616" using uint_lt2p[of i] by simp
  have "uint (- i) = (- uint i) mod 18446744073709551616"
    by (simp add: uint_word_ariths)
  also have "\<dots> = 18446744073709551616 - uint i"
    using 1 2 by (simp add: zmod_zminus1_eq_if)
  finally have "uint (- i) \<le> 9223372036854775808" using 1 by simp
  then show ?thesis
    by (simp add: unat_eq_nat_uint del: nat_uint_eq)
qed


lemma ParseInt_Itoa: "ParseInt (Itoa i) = Inr i"
proof (cases "sint i < 0")
  case True
  have u: "unat (- i) \<le> 9223372036854775808"
    using True by (rule unat_minus_neg)
  then have "ParseUint (formatBits10 (unat (- i))) = Inr (unat (- i))"
    by (intro ParseUint_formatBits10) simp
  then show ?thesis
    using True u by (simp add: Itoa_def FormatInt10_def ParseInt_def)
next
  case False
  then have u: "unat i < 9223372036854775808"
    by (rule unat_nonneg)
  obtain d where d: "d < 10" "hd (formatBits10 (unat i)) = digits ! d" and ne: "formatBits10 (unat i) \<noteq> []"
    using formatBits10_hd[of "unat i"] by blast
  have "hd (formatBits10 (unat i)) \<noteq> CHR ''+''" "hd (formatBits10 (unat i)) \<noteq> CHR ''-''"
    using d digits_nth[of d] by simp_all
  moreover have "ParseUint (formatBits10 (unat i)) = Inr (unat i)"
    using u by (intro ParseUint_formatBits10) simp
  ultimately show ?thesis
    using False u ne by (simp add: Itoa_def FormatInt10_def ParseInt_def)
qed

subsection \<open>Query strings\<close>

lemma upperhex_nth:
  assumes "n < 16"
  shows "ishex (upperhex ! n) \<and> unhex (upperhex ! n) = n
         \<and> upperhex ! n \<notin> {CHR ''&'', CHR ''='', CHR '';''}"
proof -
  have all: "list_all (\<lambda>n. ishex (upperhex ! n) \<and> unhex (upperhex ! n) = n
         \<and> upperhex ! n \<notin> {CHR ''&'', CHR ''='', CHR '';''}) [0, 1, 2, 3, 4, 5, 6, 7, 8, 9, 10, 11, 12, 13, 14, 15]"
    by (simp add: upperhex_def ishex_def unhex_def)
  from assms have "n \<in> set [0, 1, 2, 3, 4, 5, 6, 7, 8, 9, 10, 11, 12, 13, 14, 15]"
    by simp arith
  with all show ?thesis
    unfolding list_all_iff by blast
qed

lemma of_char_div16: "(of_char c :: nat) div 16 < 16"
proof -
  have "(of_char c :: nat) < 256" by (rule nat_of_char_less_256)
  then show ?thesis by arith
qed

lemma shouldEscape_special:
  "shouldEscape CHR ''&''" "shouldEscape CHR ''=''" "shouldEscape CHR '';''"
  "shouldEscape CHR ''%''" "shouldEscape CHR ''+''"
  by (simp_all add: shouldEscape_def)

lemma escape_chars: "c \<in> set (escape s) \<Longrightarrow> c \<notin> {CHR ''&'', CHR ''='', CHR '';''}"
proof (induction s)
  case Nil
  then show ?case by simp
next
  case (Cons a s)
  have h1: "upperhex ! (of_char a div 16) \<notin> {CHR ''&'', CHR ''='', CHR '';''}"
    using upperhex_nth[OF of_char_div16] by blast
  have h2: "upperhex ! (of_char a mod 16) \<notin> {CHR ''&'', CHR ''='', CHR '';''}"
    using upperhex_nth[of "of_char a mod 16"] by simp
  show ?case
  proof (cases "shouldEscape a")
    case True
    with Cons h1 h2 show ?thesis by (auto split: if_splits)
  next
    case False
    then have "a \<notin> {CHR ''&'', CHR ''='', CHR '';''}"
      using shouldEscape_special by auto
    with False Cons show ?thesis by auto
  qed
qed

lemma unescape_escape: "unescape (escape s) = Inr s"
proof (induction s)
  case Nil
  then show ?case by simp
next
  case (Cons a s)
  have h1: "ishex (upperhex ! (of_char a div 16))" "unhex (upperhex ! (of_char a div 16)) = of_char a div 16"
    using upperhex_nth[OF of_char_div16] by blast+
  have h2: "ishex (upperhex ! (of_char a mod 16))" "unhex (upperhex ! (of_char a mod 16)) = of_char a mod 16"
    using upperhex_nth[of "of_char a mod 16"] by simp_all
  have h3: "char_of ((of_char a :: nat) div 16 * 16 + of_char a mod 16) = a"
    by simp
  show ?case
  proof (cases "shouldEscape a")
    case True
    then show ?thesis using Cons h1 h2 h3 by simp
  next
    case False
    then have "a \<noteq> CHR ''%''" "a \<noteq> CHR ''+''"
      using shouldEscape_special by auto
    with False Cons show ?thesis by simp
  qed
qed


lemma setting_chars: "c \<in> set (setting p) \<Longrightarrow> c \<noteq> CHR ''&'' \<and> c \<noteq> CHR '';''"
  using escape_chars by (auto simp: setting_def QueryEscape_def)

lemma setting_nonempty: "setting p \<noteq> []"
  by (simp add: setting_def)

lemma Cut_setting: "Cut (setting p) CHR ''='' = (QueryEscape (fst p), QueryEscape (snd p))"
proof -
  have "\<forall>c \<in> set (QueryEscape (fst p)). c \<noteq> CHR ''=''"
    using escape_chars by (auto simp: QueryEscape_def)
  then show ?thesis
    by (simp add: Cut_def setting_def takeWhile_append2 dropWhile_append2)
qed

lemma Cut_amp_last: "\<forall>c \<in> set s. c \<noteq> CHR ''&'' \<Longrightarrow> Cut s CHR ''&'' = (s, [])"
proof -
  assume a: "\<forall>c \<in> set s. c \<noteq> CHR ''&''"
  then have td: "takeWhile (\<lambda>c. c \<noteq> CHR ''&'') s = s" "dropWhile (\<lambda>c. c \<noteq> CHR ''&'') s = []"
    by (induction s) auto
  show ?thesis by (simp add: Cut_def td)
qed

lemma Cut_amp: "\<forall>c \<in> set s. c \<noteq> CHR ''&'' \<Longrightarrow> Cut (s @ CHR ''&'' # t) CHR ''&'' = (s, t)"
  by (simp add: Cut_def takeWhile_append2 dropWhile_append2)

lemma parseQuery_setting:
  "parseQuery m err (setting p) = (m @ [p], err)"
proof -
  have 1: "\<forall>c \<in> set (setting p). c \<noteq> CHR ''&''" using setting_chars by blast
  have 2: "CHR '';'' \<notin> set (setting p)" using setting_chars by blast
  show ?thesis
    apply (subst parseQuery.simps)
    apply (simp add: Cut_amp_last[OF 1] 2 setting_nonempty Cut_setting QueryUnescape_def
        QueryEscape_def unescape_escape)
    apply (subst parseQuery.simps)
    apply simp
    done
qed

lemma parseQuery_setting_amp:
  "parseQuery m err (setting p @ CHR ''&'' # rest) = parseQuery (m @ [p]) err rest"
proof -
  have 1: "\<forall>c \<in> set (setting p). c \<noteq> CHR ''&''" using setting_chars by blast
  have 2: "CHR '';'' \<notin> set (setting p)" using setting_chars by blast
  show ?thesis
    apply (subst parseQuery.simps)
    apply (simp add: Cut_amp[OF 1] 2 setting_nonempty Cut_setting QueryUnescape_def
        QueryEscape_def unescape_escape)
    done
qed

lemma parseQuery_joinq: "parseQuery m err (joinq (map setting ps)) = (m @ ps, err)"
proof (induction ps arbitrary: m)
  case Nil
  show ?case by (subst parseQuery.simps) simp
next
  case (Cons p ps)
  show ?case
  proof (cases ps)
    case Nil
    then show ?thesis by (simp add: parseQuery_setting)
  next
    case (Cons q qs)
    with Cons.IH[of "m @ [p]"] show ?thesis
      by (simp add: parseQuery_setting_amp)
  qed
qed

lemma joinq_snoc: "joinq (ss @ [s]) = (if ss = [] then s else joinq ss @ ''&'' @ s)"
  by (induction ss rule: joinq.induct) auto

lemma joinq_empty: "\<forall>s \<in> set ss. s \<noteq> [] \<Longrightarrow> joinq ss = [] \<longleftrightarrow> ss = []"
  by (induction ss rule: joinq.induct) auto

lemma Encode_values_joinq:
  "Encode_values (QueryEscape k) vs (joinq (map setting ps)) =
     joinq (map setting (ps @ map (Pair k) vs))"
proof (induction vs arbitrary: ps)
  case Nil
  then show ?case by simp
next
  case (Cons x vs)
  have ne: "joinq (map setting ps) = [] \<longleftrightarrow> ps = []"
    using joinq_empty[of "map setting ps"] by (simp add: setting_nonempty)
  have "(if length (joinq (map setting ps)) > 0 then joinq (map setting ps) @ ''&'' else joinq (map setting ps))
          @ QueryEscape k @ ''='' @ QueryEscape x = joinq (map setting (ps @ [(k, x)]))"
    using ne by (simp add: joinq_snoc setting_def)
  then show ?case using Cons.IH[of "ps @ [(k, x)]"] by simp
qed

lemma Encode_keys_joinq:
  "Encode_keys v ks (joinq (map setting ps)) =
     joinq (map setting (ps @ concat (map (\<lambda>k. map (Pair k) (lookup v k)) ks)))"
proof (induction ks arbitrary: ps)
  case Nil
  then show ?case by simp
next
  case (Cons k ks)
  show ?case using Cons.IH[of "ps @ map (Pair k) (lookup v k)"]
    by (simp add: Encode_values_joinq)
qed

lemma Encode_joinq: "Encode v = joinq (map setting (settings v))"
proof (cases "v = []")
  case True
  then show ?thesis by (simp add: Encode_def settings_def)
next
  case False
  then show ?thesis
    using Encode_keys_joinq[of v "sort (remdups (map fst v))" "[]"]
    by (simp add: Encode_def settings_def Let_def)
qed

lemma ParseQuery_Encode: "ParseQuery (Encode v) = (settings v, None)"
  by (simp add: ParseQuery_def Encode_joinq parseQuery_joinq)


lemmas param_defs = zwsIdParam_def zpidParam_def rentzestimateParam_def addressParam_def
  cityStateZipParam_def unitTypeParam_def widthParam_def heightParam_def
  chartDurationParam_def countParam_def

lemma settings_GetZestimate:
  "settings (GetZestimate_values z r) =
     [(''rentzestimate'', FormatBool (ZestimateRequest.Rentzestimate r)),
      (''zpid'', ZestimateRequest.Zpid r),
      (''zws-Id'', zwsId z)]"
  by (simp add: settings_def GetZestimate_values_def param_defs lookup_def)

lemma settings_GetSearchResults:
  "settings (GetSearchResults_values z r) =
     [(''address'', Address r),
      (''citystatezip'', CityStateZip r),
      (''rentzestimate'', FormatBool (SearchRequest.Rentzestimate r)),
      (''zws-Id'', zwsId z)]"
  by (simp add: settings_def GetSearchResults_values_def param_defs lookup_def)

lemma settings_GetChart:
  "settings (GetChart_values z r) =
     [(''chartDuration'', Duration r),
      (''height'', Itoa (Height r)),
      (''unit-type'', UnitType r),
      (''width'', Itoa (Width r)),
      (''zpid'', ChartRequest.Zpid r),
      (''zws-Id'', zwsId z)]"
  by (simp add: settings_def GetChart_values_def param_defs lookup_def)

lemma settings_GetComps:
  "settings (GetComps_values z r) =
     [(''count'', Itoa (Count r)),
      (''rentzestimate'', FormatBool (CompsRequest.Rentzestimate r)),
      (''zpid'', CompsRequest.Zpid r),
      (''zws-Id'', zwsId z)]"
  by (simp add: settings_def GetComps_values_def param_defs lookup_def)

lemma sorted_concat_keys:
  "sorted ks \<Longrightarrow> sorted (map fst (concat (map (\<lambda>k. map (Pair k) (f k)) ks)))"
proof (induction ks)
  case Nil
  then show ?case by simp
next
  case (Cons k ks)
  have "sorted (map (\<lambda>x. k) (f k))"
    by (simp add: map_replicate_const)
  with Cons show ?case
    by (auto simp: sorted_append comp_def)
qed

lemma sorted_settings: "sorted (map fst (settings v))"
  unfolding settings_def by (rule sorted_concat_keys) simp

lemma settings_perm:
  assumes "distinct (map fst v)" and "mset v' = mset v"
  shows "settings v' = settings v"
proof -
  have "mset (map fst v') = image_mset fst (mset v')"
    by (rule mset_map)
  also have "\<dots> = image_mset fst (mset v)"
    by (simp only: assms(2))
  also have "\<dots> = mset (map fst v)"
    by (rule mset_map[symmetric])
  finally have m: "mset (map fst v') = mset (map fst v)" .
  have d: "distinct (map fst v')"
    using mset_eq_imp_distinct_iff[OF m] assms(1) by blast
  have s: "set v' = set v"
    using assms(2) by (rule mset_eq_setD)
  have "map_of v' = map_of v"
    using map_of_inject_set[OF d assms(1)] s by blast
  then have l: "lookup v' = lookup v"
    unfolding lookup_def by presburger
  have srt: "sort (map fst v') = sort (map fst v)"
  proof (rule properties_for_sort)
    show "mset (sort (map fst v)) = mset (map fst v')"
      unfolding mset_sort m ..
    show "sorted (sort (map fst v))"
      by (rule sorted_sort)
  qed
  have r1: "remdups (map fst v') = map fst v'"
    using d by (rule distinct_remdups_id)
  have r2: "remdups (map fst v) = map fst v"
    using assms(1) by (rule distinct_remdups_id)
  show ?thesis
    unfolding settings_def r1 r2 l srt ..
qed

lemma Encode_perm:
  "distinct (map fst v) \<Longrightarrow> mset v' = mset v \<Longrightarrow> Encode v' = Encode v"
  using settings_perm[of v v'] by (simp only: Encode_joinq)

lemma distinct_keys:
  "distinct (map fst (GetZestimate_values z zr))"
  "distinct (map fst (GetSearchResults_values z sr))"
  "distinct (map fst (GetChart_values z cr))"
  "distinct (map fst (GetComps_values z pr))"
  by (simp_all add: GetZestimate_values_def GetSearchResults_values_def GetChart_values_def
      GetComps_values_def param_defs)

lemma formatBits10_chars: "c \<in> set (formatBits10 u) \<Longrightarrow> \<exists>d<10. c = digits ! d"
proof (induction u rule: formatBits10.induct)
  case (1 u)
  show ?case
  proof (cases "u < 10")
    case True
    with 1(2) have "c = digits ! u" by (subst (asm) formatBits10.simps) simp
    with True show ?thesis by blast
  next
    case False
    with 1(2) have "c \<in> set (formatBits10 (u div 10)) \<or> c = digits ! (u mod 10)"
      by (subst (asm) formatBits10.simps) auto
    then show ?thesis
    proof
      assume "c \<in> set (formatBits10 (u div 10))"
      with 1(1) False show ?thesis by blast
    next
      have "u mod 10 < 10" by simp
      moreover assume "c = digits ! (u mod 10)"
      ultimately show ?thesis by blast
    qed
  qed
qed

lemma Itoa_chars: "list_all (\<lambda>c. isDigit c \<or> c = CHR ''-'') (Itoa n)"
  using formatBits10_chars digits_nth
  by (auto simp: Itoa_def FormatInt10_def Let_def list_all_iff)

lemma digits_zero: "d < 10 \<Longrightarrow> (digits ! d = CHR ''0'') = (d = 0)"
proof -
  have all: "list_all (\<lambda>d. (digits ! d = CHR ''0'') = (d = 0)) [0..<10]"
    by (simp add: digits_def upt_rec)
  assume "d < 10"
  then have "d \<in> set [0..<10]" by simp
  with all show ?thesis unfolding list_all_iff by blast
qed

lemma formatBits10_hd_zero: "(hd (formatBits10 u) = CHR ''0'') = (u = 0)"
proof (induction u rule: formatBits10.induct)
  case (1 u)
  show ?case
  proof (cases "u < 10")
    case True
    then show ?thesis by (subst formatBits10.simps) (simp add: digits_zero)
  next
    case False
    then have "u div 10 \<noteq> 0" by simp
    with False 1 formatBits10_hd[of "u div 10"] show ?thesis
      by (subst formatBits10.simps) auto
  qed
qed

lemma formatBits10_no_sign:
  "dropWhile (\<lambda>c. c = CHR ''-'') (formatBits10 u) = formatBits10 u"
proof -
  obtain d where d: "d < 10" "hd (formatBits10 u) = digits ! d" and ne: "formatBits10 u \<noteq> []"
    using formatBits10_hd[of u] by blast
  from d digits_nth[of d] have "hd (formatBits10 u) \<noteq> CHR ''-''"
    by (auto simp: isDigit_def)
  with ne show ?thesis by (cases "formatBits10 u") auto
qed

lemma Itoa_leading_zero:
  "(hd (dropWhile (\<lambda>c. c = CHR ''-'') (Itoa n)) = CHR ''0'') = (n = 0)"
proof (cases "sint n < 0")
  case True
  then have "n \<noteq> 0" by auto
  then have "unat (- n) \<noteq> 0" by (simp add: unat_eq_0)
  with True \<open>n \<noteq> 0\<close> show ?thesis
    by (simp add: Itoa_def FormatInt10_def formatBits10_no_sign formatBits10_hd_zero)
next
  case False
  then show ?thesis
    by (simp add: Itoa_def FormatInt10_def formatBits10_no_sign formatBits10_hd_zero unat_eq_0)
qed

lemma escape_id: "list_all (\<lambda>c. \<not> shouldEscape c) s \<Longrightarrow> escape s = s"
  by (induction s) auto

lemma escape_Itoa: "escape (Itoa n) = Itoa n"
proof (rule escape_id)
  have "\<not> shouldEscape CHR ''-''" by (simp add: shouldEscape_def)
  then show "list_all (\<lambda>c. \<not> shouldEscape c) (Itoa n)"
    using formatBits10_chars digits_nth
    by (auto simp: Itoa_def FormatInt10_def Let_def list_all_iff)
qed

lemma escape_FormatBool: "escape (FormatBool b) = FormatBool b"
  by (simp add: FormatBool_def shouldEscape_def)

lemma Encode_values_of:
  "Encode (GetZestimate_values z zr) =
     ''rentzestimate='' @ FormatBool (ZestimateRequest.Rentzestimate zr)
     @ ''&zpid='' @ QueryEscape (ZestimateRequest.Zpid zr)
     @ ''&zws-Id='' @ QueryEscape (zwsId z)"
  "Encode (GetSearchResults_values z sr) =
     ''address='' @ QueryEscape (Address sr)
     @ ''&citystatezip='' @ QueryEscape (CityStateZip sr)
     @ ''&rentzestimate='' @ FormatBool (SearchRequest.Rentzestimate sr)
     @ ''&zws-Id='' @ QueryEscape (zwsId z)"
  "Encode (GetChart_values z cr) =
     ''chartDuration='' @ QueryEscape (Duration cr)
     @ ''&height='' @ Itoa (Height cr)
     @ ''&unit-type='' @ QueryEscape (UnitType cr)
     @ ''&width='' @ Itoa (Width cr)
     @ ''&zpid='' @ QueryEscape (ChartRequest.Zpid cr)
     @ ''&zws-Id='' @ QueryEscape (zwsId z)"
  "Encode (GetComps_values z pr) =
     ''count='' @ Itoa (Count pr)
     @ ''&rentzestimate='' @ FormatBool (CompsRequest.Rentzestimate pr)
     @ ''&zpid='' @ QueryEscape (CompsRequest.Zpid pr)
     @ ''&zws-Id='' @ QueryEscape (zwsId z)"
  by (simp_all add: Encode_def GetZestimate_values_def GetSearchResults_values_def
      GetChart_values_def GetComps_values_def param_defs lookup_def QueryEscape_def
      shouldEscape_def escape_Itoa escape_FormatBool)

subsection \<open>The type information of the structs\<close>

text \<open>
  \<open>getTypeInfo\<close> succeeds on every struct of the package: the tags are well formed and
  no two field paths conflict. The lemmas give the fields it finds.
\<close>

lemmas type_defs = Message_type_def Address_type_def Value_type_def ValueChange_type_def
  Zestimate_type_def ZestimateRequest_type_def Region_type_def Links_type_def
  ZestimateResult_type_def SearchRequest_type_def SearchResult_type_def SearchResults_type_def
  ChartRequest_type_def ChartResult_type_def CompsRequest_type_def Principal_type_def
  Comp_type_def CompsResult_type_def

lemmas tinfo_defs = structFieldInfo_def parseFlags_def addFieldInfo_def conflicts_def xmlName_def

lemma fi_sel [simp]: "idx (fi i n ps m k) = i" "name (fi i n ps m k) = n" "parents (fi i n ps m k) = ps"
  "flags (fi i n ps m k) = m" "ftype (fi i n ps m k) = k"
  by (simp_all add: fi_def)

lemma ti_Message: "getTypeInfo Message_type = Inr \<lparr>xmlname = None, tfields =
  [fi ''Text'' ''text'' [] fElement KString, fi ''Code'' ''code'' [] fElement KInt,
   fi ''LimitWarning'' ''limit-warning'' [] fElement KBool]\<rparr>"
  by (simp add: type_defs tinfo_defs getTypeInfo.simps fi_def)

lemma ti_Address: "getTypeInfo Address_type = Inr \<lparr>xmlname = None, tfields =
  [fi ''Street'' ''street'' [] fElement KString, fi ''Zipcode'' ''zipcode'' [] fElement KString,
   fi ''City'' ''city'' [] fElement KString, fi ''State'' ''state'' [] fElement KString,
   fi ''Latitude'' ''latitude'' [] fElement KFloat64, fi ''Longitude'' ''longitude'' [] fElement KFloat64]\<rparr>"
  by (simp add: type_defs tinfo_defs getTypeInfo.simps fi_def)

lemma ti_Value: "getTypeInfo Value_type = Inr \<lparr>xmlname = None, tfields =
  [fi ''Currency'' ''currency'' [] fAttr KString, fi ''Value'' ''Value'' [] fCharData KInt]\<rparr>"
  by (simp add: type_defs tinfo_defs getTypeInfo.simps fi_def)

lemma ti_ValueChange: "getTypeInfo ValueChange_type = Inr \<lparr>xmlname = None, tfields =
  [fi ''Duration'' ''duration'' [] fAttr KInt, fi ''Currency'' ''currency'' [] fAttr KString,
   fi ''Value'' ''Value'' [] fCharData KInt]\<rparr>"
  by (simp add: type_defs tinfo_defs getTypeInfo.simps fi_def)

lemma ti_Zestimate: "getTypeInfo Zestimate_type = Inr \<lparr>xmlname = None, tfields =
  [fi ''Amount'' ''amount'' [] fElement Value_type, fi ''LastUpdated'' ''last-updated'' [] fElement KString,
   fi ''ValueChange'' ''valueChange'' [] fElement ValueChange_type,
   fi ''Low'' ''low'' [''valuationRange''] fElement Value_type,
   fi ''High'' ''high'' [''valuationRange''] fElement Value_type,
   fi ''Percentile'' ''percentile'' [] fElement KString]\<rparr>"
  by (simp add: type_defs tinfo_defs getTypeInfo.simps fi_def)

lemma ti_ZestimateRequest: "getTypeInfo ZestimateRequest_type = Inr \<lparr>xmlname = None, tfields =
  [fi ''Zpid'' ''zpid'' [] fElement KString, fi ''Rentzestimate'' ''rentzestimate'' [] fElement KBool]\<rparr>"
  by (simp add: type_defs tinfo_defs getTypeInfo.simps fi_def)

lemma ti_Region: "getTypeInfo Region_type = Inr
  \<lparr>xmlname = Some (fi ''XMLName'' ''region'' [] fElement KName), tfields =
  [fi ''ID'' ''id'' [] fAttr KString, fi ''Type'' ''type'' [] fAttr KString,
   fi ''Name'' ''name'' [] fAttr KString, fi ''ZIndex'' ''zindexValue'' [] fElement KString,
   fi ''ZIndexOneYearChange'' ''zindexOneYearChange'' [] fElement KFloat64,
   fi ''Overview'' ''overview'' [''links''] fElement KString,
   fi ''ForSaleByOwner'' ''forSaleByOwner'' [''links''] fElement KString,
   fi ''ForSale'' ''forSale'' [''links''] fElement KString]\<rparr>"
  by (simp add: type_defs tinfo_defs getTypeInfo.simps fi_def)

lemma ti_Links: "getTypeInfo Links_type = Inr
  \<lparr>xmlname = Some (fi ''XMLName'' ''links'' [] fElement KName), tfields =
  [fi ''HomeDetails'' ''homedetails'' [] fElement KString,
   fi ''GraphsAndData'' ''graphsanddata'' [] fElement KString,
   fi ''MapThisHome'' ''mapthishome'' [] fElement KString,
   fi ''MyZestimator'' ''myzestimator'' [] fElement KString,
   fi ''Comparables'' ''comparables'' [] fElement KString]\<rparr>"
  by (simp add: type_defs tinfo_defs getTypeInfo.simps fi_def)

lemma ti_ZestimateResult: "getTypeInfo ZestimateResult_type = Inr
  \<lparr>xmlname = Some (fi ''XMLName'' ''zestimate'' [] fElement KName), tfields =
  [fi ''Request'' ''request'' [] fElement ZestimateRequest_type,
   fi ''Message'' ''message'' [] fElement Message_type,
   fi ''Links'' ''links'' [''response''] fElement Links_type,
   fi ''Address'' ''address'' [''response''] fElement Address_type,
   fi ''Zestimate'' ''zestimate'' [''response''] fElement Zestimate_type,
   fi ''LocalRealEstate'' ''region'' [''response'', ''localRealEstate''] fElement (KSlice Region_type),
   fi ''ZipcodeID'' ''zipcode-id'' [''response'', ''regions''] fElement KString,
   fi ''CityID'' ''city-id'' [''response'', ''regions''] fElement KString,
   fi ''CountyID'' ''county-id'' [''response'', ''regions''] fElement KString,
   fi ''StateID'' ''state-id'' [''response'', ''regions''] fElement KString]\<rparr>"
  by (simp add: type_defs tinfo_defs getTypeInfo.simps fi_def)

lemma ti_SearchRequest: "getTypeInfo SearchRequest_type = Inr \<lparr>xmlname = None, tfields =
  [fi ''Address'' ''address'' [] fElement KString,
   fi ''CityStateZip'' ''citystatezip'' [] fElement KString,
   fi ''Rentzestimate'' ''rentzestimate'' [] fElement KBool]\<rparr>"
  by (simp add: type_defs tinfo_defs getTypeInfo.simps fi_def)

lemma ti_SearchResult: "getTypeInfo SearchResult_type = Inr
  \<lparr>xmlname = Some (fi ''XMLName'' ''result'' [] fElement KName), tfields =
  [fi ''Zpid'' ''zpid'' [] fElement KString,
   fi ''Links'' ''links'' [] fElement Links_type,
   fi ''Address'' ''address'' [] fElement Address_type,
   fi ''Zestimate'' ''zestimate'' [] fElement Zestimate_type,
   fi ''LocalRealEstate'' ''region'' [''localRealEstate''] fElement (KSlice Region_type)]\<rparr>"
  by (simp add: type_defs tinfo_defs getTypeInfo.simps fi_def)

lemma ti_SearchResults: "getTypeInfo SearchResults_type = Inr
  \<lparr>xmlname = Some (fi ''XMLName'' ''searchresults'' [] fElement KName), tfields =
  [fi ''Request'' ''request'' [] fElement SearchRequest_type,
   fi ''Message'' ''message'' [] fElement Message_type,
   fi ''Results'' ''result'' [''response'', ''results''] fElement (KSlice SearchResult_type)]\<rparr>"
  by (simp add: type_defs tinfo_defs getTypeInfo.simps fi_def)

lemma ti_ChartRequest: "getTypeInfo ChartRequest_type = Inr \<lparr>xmlname = None, tfields =
  [fi ''Zpid'' ''zpid'' [] fElement KString,
   fi ''UnitType'' ''unit-type'' [] fElement KString,
   fi ''Width'' ''width'' [] fElement KInt,
   fi ''Height'' ''height'' [] fElement KInt,
   fi ''Duration'' ''chartDuration'' [] fElement KString]\<rparr>"
  by (simp add: type_defs tinfo_defs getTypeInfo.simps fi_def)

lemma ti_ChartResult: "getTypeInfo ChartResult_type = Inr
  \<lparr>xmlname = Some (fi ''XMLName'' ''chart'' [] fElement KName), tfields =
  [fi ''Request'' ''request'' [] fElement ChartRequest_type,
   fi ''Message'' ''message'' [] fElement Message_type,
   fi ''Url'' ''url'' [''response''] fElement KString]\<rparr>"
  by (simp add: type_defs tinfo_defs getTypeInfo.simps fi_def)

lemma ti_CompsRequest: "getTypeInfo CompsRequest_type = Inr \<lparr>xmlname = None, tfields =
  [fi ''Zpid'' ''zpid'' [] fElement KString,
   fi ''Count'' ''count'' [] fElement KInt,
   fi ''Rentzestimate'' ''rentzestimate'' [] fElement KBool]\<rparr>"
  by (simp add: type_defs tinfo_defs getTypeInfo.simps fi_def)

lemma ti_Principal: "getTypeInfo Principal_type = Inr \<lparr>xmlname = None, tfields =
  [fi ''Zpid'' ''zpid'' [] fElement KString,
   fi ''Links'' ''links'' [] fElement Links_type,
   fi ''Address'' ''address'' [] fElement Address_type,
   fi ''Zestimate'' ''zestimate'' [] fElement Zestimate_type]\<rparr>"
  by (simp add: type_defs tinfo_defs getTypeInfo.simps fi_def)

lemma ti_Comp: "getTypeInfo Comp_type = Inr \<lparr>xmlname = None, tfields =
  [fi ''Score'' ''score'' [] fAttr KFloat64,
   fi ''Zpid'' ''zpid'' [] fElement KString,
   fi ''Links'' ''links'' [] fElement Links_type,
   fi ''Address'' ''address'' [] fElement Address_type,
   fi ''Zestimate'' ''zestimate'' [] fElement Zestimate_type]\<rparr>"
  by (simp add: type_defs tinfo_defs getTypeInfo.simps fi_def)

lemma ti_CompsResult: "getTypeInfo CompsResult_type = Inr
  \<lparr>xmlname = Some (fi ''XMLName'' ''comps'' [] fElement KName), tfields =
  [fi ''Request'' ''request'' [] fElement CompsRequest_type,
   fi ''Message'' ''message'' [] fElement Message_type,
   fi ''Principal'' ''principal'' [''response'', ''properties''] fElement Principal_type,
   fi ''Comparables'' ''comp'' [''response'', ''properties'', ''comparables'']
      fElement (KSlice Comp_type)]\<rparr>"
  by (simp add: type_defs tinfo_defs getTypeInfo.simps fi_def)

subsection \<open>Unmarshalling into a struct\<close>

lemma unmarshal_KStruct:
  "getTypeInfo (KStruct n fs) = Inr tinfo \<Longrightarrow>
   unmarshal pf (KStruct n fs) val (Elem local as ns) =
     (case checkXMLName tinfo local of
        Some e \<Rightarrow> (val, Some e)
      | None \<Rightarrow>
          (case unmarshalAttrs pf (tfields tinfo) (assignXMLName tinfo val local) as of
             (sv, Some e) \<Rightarrow> (sv, Some e)
           | (sv, None) \<Rightarrow>
               let saveData = find (\<lambda>finfo. flags finfo = fCharData) (tfields tinfo) in
               (case unmarshal_loop pf (Some tinfo) (saveData \<noteq> None) sv [] ns of
                  ((sv', data), Some e) \<Rightarrow> (sv', Some e)
                | ((sv', data), None) \<Rightarrow>
                    (case saveData of
                       None \<Rightarrow> (sv', None)
                     | Some finfo \<Rightarrow>
                         (case copyValue pf (ftype finfo) data of
                            Inl e \<Rightarrow> (sv', Some e)
                          | Inr x \<Rightarrow> (setField sv' (idx finfo) x, None))))))"
  by simp

lemmas um_Message =
  unmarshal_KStruct[OF ti_Message[unfolded Message_type_def], folded Message_type_def]
lemmas um_Address =
  unmarshal_KStruct[OF ti_Address[unfolded Address_type_def], folded Address_type_def]
lemmas um_Value =
  unmarshal_KStruct[OF ti_Value[unfolded Value_type_def], folded Value_type_def]
lemmas um_ValueChange =
  unmarshal_KStruct[OF ti_ValueChange[unfolded ValueChange_type_def], folded ValueChange_type_def]
lemmas um_Zestimate =
  unmarshal_KStruct[OF ti_Zestimate[unfolded Zestimate_type_def], folded Zestimate_type_def]
lemmas um_ZestimateRequest =
  unmarshal_KStruct[OF ti_ZestimateRequest[unfolded ZestimateRequest_type_def], folded ZestimateRequest_type_def]
lemmas um_Region =
  unmarshal_KStruct[OF ti_Region[unfolded Region_type_def], folded Region_type_def]
lemmas um_Links =
  unmarshal_KStruct[OF ti_Links[unfolded Links_type_def], folded Links_type_def]
lemmas um_ZestimateResult =
  unmarshal_KStruct[OF ti_ZestimateResult[unfolded ZestimateResult_type_def], folded ZestimateResult_type_def]
lemmas um_SearchRequest =
  unmarshal_KStruct[OF ti_SearchRequest[unfolded SearchRequest_type_def], folded SearchRequest_type_def]
lemmas um_SearchResult =
  unmarshal_KStruct[OF ti_SearchResult[unfolded SearchResult_type_def], folded SearchResult_type_def]
lemmas um_SearchResults =
  unmarshal_KStruct[OF ti_SearchResults[unfolded SearchResults_type_def], folded SearchResults_type_def]
lemmas um_ChartRequest =
  unmarshal_KStruct[OF ti_ChartRequest[unfolded ChartRequest_type_def], folded ChartRequest_type_def]
lemmas um_ChartResult =
  unmarshal_KStruct[OF ti_ChartResult[unfolded ChartResult_type_def], folded ChartResult_type_def]
lemmas um_CompsRequest =
  unmarshal_KStruct[OF ti_CompsRequest[unfolded CompsRequest_type_def], folded CompsRequest_type_def]
lemmas um_Principal =
  unmarshal_KStruct[OF ti_Principal[unfolded Principal_type_def], folded Principal_type_def]
lemmas um_Comp =
  unmarshal_KStruct[OF ti_Comp[unfolded Comp_type_def], folded Comp_type_def]
lemmas um_CompsResult =
  unmarshal_KStruct[OF ti_CompsResult[unfolded CompsResult_type_def], folded CompsResult_type_def]

subsection \<open>Zero values\<close>

lemma zero_Message:
  "zero Message_type = VStruct [(''Text'', VString []), (''Code'', VInt 0), (''LimitWarning'', VBool False)]"
  by (simp add: type_defs)

lemma zero_Address:
  "zero Address_type = VStruct [(''Street'', VString []), (''Zipcode'', VString []), (''City'', VString []),
     (''State'', VString []), (''Latitude'', VFloat 0), (''Longitude'', VFloat 0)]"
  by (simp add: type_defs)

lemma zero_Value: "zero Value_type = VStruct [(''Currency'', VString []), (''Value'', VInt 0)]"
  by (simp add: type_defs)

lemma zero_ValueChange:
  "zero ValueChange_type = VStruct [(''Duration'', VInt 0), (''Currency'', VString []), (''Value'', VInt 0)]"
  by (simp add: type_defs)

lemma zero_ZestimateRequest:
  "zero ZestimateRequest_type = VStruct [(''Zpid'', VString []), (''Rentzestimate'', VBool False)]"
  by (simp add: type_defs)

lemma zero_CompsRequest:
  "zero CompsRequest_type = VStruct [(''Zpid'', VString []), (''Count'', VInt 0), (''Rentzestimate'', VBool False)]"
  by (simp add: type_defs)

lemma zero_Links:
  "zero Links_type = VStruct [(''XMLName'', VName []), (''HomeDetails'', VString []),
     (''GraphsAndData'', VString []), (''MapThisHome'', VString []), (''MyZestimator'', VString []),
     (''Comparables'', VString [])]"
  by (simp add: type_defs)

lemma zero_Region:
  "zero Region_type = VStruct [(''XMLName'', VName []), (''ID'', VString []), (''Type'', VString []),
     (''Name'', VString []), (''ZIndex'', VString []), (''ZIndexOneYearChange'', VFloat 0),
     (''Overview'', VString []), (''ForSaleByOwner'', VString []), (''ForSale'', VString [])]"
  by (simp add: type_defs)

lemma zero_Zestimate:
  "zero Zestimate_type = VStruct [(''Amount'', zero Value_type), (''LastUpdated'', VString []),
     (''ValueChange'', zero ValueChange_type), (''Low'', zero Value_type), (''High'', zero Value_type),
     (''Percentile'', VString [])]"
  by (simp add: type_defs)

lemma zero_Principal:
  "zero Principal_type = VStruct [(''Zpid'', VString []), (''Links'', zero Links_type),
     (''Address'', zero Address_type), (''Zestimate'', zero Zestimate_type)]"
  by (simp add: type_defs)

lemma zero_Comp:
  "zero Comp_type = VStruct [(''Score'', VFloat 0), (''Zpid'', VString []), (''Links'', zero Links_type),
     (''Address'', zero Address_type), (''Zestimate'', zero Zestimate_type)]"
  by (simp add: type_defs)

lemma zero_ZestimateResult:
  "zero ZestimateResult_type = VStruct [(''XMLName'', VName []),
     (''Request'', zero ZestimateRequest_type), (''Message'', zero Message_type),
     (''Links'', zero Links_type), (''Address'', zero Address_type), (''Zestimate'', zero Zestimate_type),
     (''LocalRealEstate'', VSlice []), (''ZipcodeID'', VString []), (''CityID'', VString []),
     (''CountyID'', VString []), (''StateID'', VString [])]"
  by (simp add: type_defs)

lemma zero_SearchResults:
  "zero SearchResults_type = VStruct [(''XMLName'', VName []),
     (''Request'', zero SearchRequest_type), (''Message'', zero Message_type),
     (''Results'', VSlice [])]"
  by (simp add: type_defs)

lemma zero_ChartResult:
  "zero ChartResult_type = VStruct [(''XMLName'', VName []),
     (''Request'', zero ChartRequest_type), (''Message'', zero Message_type),
     (''Url'', VString [])]"
  by (simp add: type_defs)

lemma zero_CompsResult:
  "zero CompsResult_type = VStruct [(''XMLName'', VName []),
     (''Request'', zero CompsRequest_type), (''Message'', zero Message_type),
     (''Principal'', zero Principal_type), (''Comparables'', VSlice [])]"
  by (simp add: type_defs)

subsection \<open>Decoding the stub responses\<close>

lemma TrimLeft_0: "runeLen rs s = 0 \<Longrightarrow> TrimLeft rs s = s"
  by (subst TrimLeft.simps) simp

lemma runeLen_plain: "plain c \<Longrightarrow> runeLen spaceRunes (c # s) = 0"
  by (simp add: spaceRunes_def plain_def)

lemma runeLen_plain_rev: "plain c \<Longrightarrow> runeLen (map rev spaceRunes) (c # s) = 0"
  by (simp add: spaceRunes_def plain_def)

lemma TrimSpace_plain:
  assumes "s \<noteq> []" and "plain (hd s)" and "plain (last s)"
  shows "TrimSpace s = s"
proof -
  from assms obtain c s' where s: "s = c # s'" by (cases s) auto
  with assms have 1: "TrimLeft spaceRunes s = s"
    by (simp add: TrimLeft_0 runeLen_plain)
  from assms have r: "rev s = last s # rev (butlast s)"
    by (metis append_butlast_last_id rev_append append.simps rev_singleton_conv)
  from assms have "TrimLeft (map rev spaceRunes) (last s # rev (butlast s)) = last s # rev (butlast s)"
    by (simp add: TrimLeft_0 runeLen_plain_rev)
  then have 2: "TrimLeft (map rev spaceRunes) (rev s) = rev s"
    by (simp only: r)
  show ?thesis by (simp add: TrimSpace_def 1 2)
qed

lemmas eval_defs = checkXMLName_def assignXMLName_def ParseInt_def ParseUint_def isDigit_def
  ParseBool_def TrimSpace_plain plain_def

lemma parse_plain:
  "TrimSpace ''258000'' = ''258000''" "TrimSpace ''231000'' = ''231000''"
  "TrimSpace ''278000'' = ''278000''" "TrimSpace ''260000'' = ''260000''"
  "TrimSpace ''0'' = ''0''" "TrimSpace ''2'' = ''2''" "TrimSpace ''5'' = ''5''"
  by (simp_all add: TrimSpace_plain plain_def)

lemma parse_ints:
  "ParseInt ''258000'' = Inr 258000" "ParseInt ''231000'' = Inr 231000"
  "ParseInt ''278000'' = Inr 278000" "ParseInt ''260000'' = Inr 260000"
  "ParseInt ''0'' = Inr 0" "ParseInt ''2'' = Inr 2" "ParseInt ''5'' = Inr 5"
  by (simp_all add: ParseInt_def ParseUint_def isDigit_def)

lemma um_value:
  "amount \<noteq> [] \<Longrightarrow> ParseInt (TrimSpace amount) = Inr i \<Longrightarrow>
   unmarshal pf Value_type (zero Value_type) (Elem nm [(''currency'', cur)] [CharData amount]) =
     (VStruct [(''Currency'', VString cur), (''Value'', VInt i)], None)"
  by (simp add: um_Value zero_Value checkXMLName_def assignXMLName_def)

lemma um_links:
  "unmarshal pf Links_type (zero Links_type) (Elem ''links'' [] (links_nodes zpid)) =
     (links_value zpid, None)"
  by (simp add: um_Links zero_Links checkXMLName_def assignXMLName_def links_nodes_def leaf_def
      ws_def links_value_def)

lemma um_address:
  "pf ''47.637933'' = Inr lat \<Longrightarrow> pf ''-122.347938'' = Inr lon \<Longrightarrow>
   unmarshal pf Address_type (zero Address_type) (Elem ''address'' [] (address_nodes street)) =
     (address_value street lat lon, None)"
  by (simp add: um_Address zero_Address eval_defs address_nodes_def leaf_def ws_def address_value_def)

lemma um_zestimate:
  "amount \<noteq> [] \<Longrightarrow> ParseInt (TrimSpace amount) = Inr i \<Longrightarrow>
   low \<noteq> [] \<Longrightarrow> ParseInt (TrimSpace low) = Inr lo \<Longrightarrow>
   high \<noteq> [] \<Longrightarrow> ParseInt (TrimSpace high) = Inr hi \<Longrightarrow>
   unmarshal pf Zestimate_type (zero Zestimate_type)
     (Elem ''zestimate'' [] (zestimate_nodes amount low high)) = (zestimate_value i lo hi, None)"
  by (simp add: um_Zestimate um_ValueChange zero_Zestimate zero_ValueChange um_value eval_defs
      zestimate_nodes_def value_xml_def leaf_def ws_def zestimate_value_def)

lemma um_request:
  "unmarshal pf ZestimateRequest_type (zero ZestimateRequest_type)
     (Elem ''request'' [] (request_nodes zpid)) =
     (VStruct [(''Zpid'', VString zpid), (''Rentzestimate'', VBool False)], None)"
  by (simp add: um_ZestimateRequest zero_ZestimateRequest eval_defs request_nodes_def leaf_def ws_def)

lemma um_message:
  "code \<noteq> [] \<Longrightarrow> ParseInt (TrimSpace code) = Inr c \<Longrightarrow>
   unmarshal pf Message_type (zero Message_type) (Elem ''message'' [] (message_nodes text code)) =
     (message_value text c, None)"
  by (simp add: um_Message zero_Message checkXMLName_def assignXMLName_def message_nodes_def
      leaf_def ws_def message_value_def)

lemma um_region:
  "pf ''-0.144'' = Inr ch \<Longrightarrow>
   unmarshal pf Region_type (zero Region_type)
     (Elem ''region'' [(''id'', ''271856''), (''type'', ''neighborhood''), (''name'', ''East Queen Anne'')]
        region_nodes) = (region_value ch, None)"
  by (simp add: um_Region zero_Region eval_defs region_nodes_def leaf_def ws_def region_value_def)

lemma Decode_zestimate_stub:
  "pf ''47.637933'' = Inr lat \<Longrightarrow> pf ''-122.347938'' = Inr lon \<Longrightarrow> pf ''-0.144'' = Inr ch \<Longrightarrow>
   Decode pf ZestimateResult_type zestimate_stub (zero ZestimateResult_type) =
     (zestimate_stub_value lat lon ch, None)"
  by (simp add: Decode_def zestimate_stub_def zestimate_response_nodes_def um_ZestimateResult
      zero_ZestimateResult checkXMLName_def assignXMLName_def leaf_def ws_def
      um_request um_message um_links um_address um_zestimate um_region parse_plain parse_ints
      zestimate_stub_value_def)

lemma um_principal:
  "pf ''47.637933'' = Inr lat \<Longrightarrow> pf ''-122.347938'' = Inr lon \<Longrightarrow>
   amount \<noteq> [] \<Longrightarrow> ParseInt (TrimSpace amount) = Inr i \<Longrightarrow>
   unmarshal pf Principal_type (zero Principal_type)
     (Elem ''principal'' [] (property_nodes zpid street amount)) =
     (VStruct (property_value zpid street i lat lon), None)"
  by (simp add: um_Principal zero_Principal checkXMLName_def assignXMLName_def property_nodes_def
      leaf_def ws_def um_links um_address um_zestimate parse_plain parse_ints property_value_def)

lemma um_comp:
  "pf ''47.637933'' = Inr lat \<Longrightarrow> pf ''-122.347938'' = Inr lon \<Longrightarrow>
   score \<noteq> [] \<Longrightarrow> pf (TrimSpace score) = Inr f \<Longrightarrow>
   unmarshal pf Comp_type (zero Comp_type)
     (Elem ''comp'' [(''score'', score)] (property_nodes zpid ''2118 Bigelow Ave N'' ''260000'')) =
     (comp_value lat lon (score, zpid) f, None)"
  by (simp add: um_Comp zero_Comp checkXMLName_def assignXMLName_def property_nodes_def
      leaf_def ws_def um_links um_address um_zestimate parse_plain parse_ints property_value_def
      comp_value_def)

text \<open>
  The loop of \<open>unmarshalPath\<close> over the content of \<open>comparables\<close>: each \<open>comp\<close> element is
  appended to the slice, in the order of the document.
\<close>

lemma comparables_loop:
  assumes lat: "pf ''47.637933'' = Inr lat" and lon: "pf ''-122.347938'' = Inr lon"
    and scores: "list_all2 (\<lambda>c f. fst c \<noteq> [] \<and> pf (TrimSpace (fst c)) = Inr f) cs fs"
  shows "unmarshalPath_loop pf
     \<lparr>xmlname = Some (fi ''XMLName'' ''comps'' [] fElement KName), tfields =
        [fi ''Request'' ''request'' [] fElement CompsRequest_type,
         fi ''Message'' ''message'' [] fElement Message_type,
         fi ''Principal'' ''principal'' [''response'', ''properties''] fElement Principal_type,
         fi ''Comparables'' ''comp'' [''response'', ''properties'', ''comparables'']
            fElement (KSlice Comp_type)]\<rparr>
     (VStruct [(''XMLName'', x), (''Request'', r), (''Message'', m), (''Principal'', p),
               (''Comparables'', VSlice xs)])
     [''response'', ''properties'', ''comparables'']
     (map (\<lambda>(score, zpid). comp_xml score zpid ''2118 Bigelow Ave N'' ''260000'') cs) =
     (VStruct [(''XMLName'', x), (''Request'', r), (''Message'', m), (''Principal'', p),
               (''Comparables'', VSlice (xs @ map2 (comp_value lat lon) cs fs))], None)"
  using scores
proof (induction cs fs arbitrary: xs rule: list_all2_induct)
  case Nil
  then show ?case by simp
next
  case (Cons c cs f fs)
  obtain score zpid where c: "c = (score, zpid)" by (cases c)
  from Cons.hyps(1) c have s: "score \<noteq> []" "pf (TrimSpace score) = Inr f" by simp_all
  show ?case
    using Cons.IH[of "xs @ [comp_value lat lon (score, zpid) f]"]
    by (simp add: c comp_xml_def um_comp[OF lat lon s])
qed

lemma Decode_comps_stub:
  assumes lat: "pf ''47.637933'' = Inr lat" and lon: "pf ''-122.347938'' = Inr lon"
    and scores: "list_all2 (\<lambda>c f. fst c \<noteq> [] \<and> pf (TrimSpace (fst c)) = Inr f) cs fs"
  shows "Decode pf CompsResult_type (comps_stub cs) (zero CompsResult_type) =
     (comps_stub_value lat lon cs fs, None)"
  using comparables_loop[OF lat lon scores, of "VName ''comps''"
      "VStruct [(''Zpid'', VString ''48749425''), (''Count'', VInt 5), (''Rentzestimate'', VBool False)]"
      "message_value ''Request successfully processed'' 0"
      "VStruct (property_value ''48749425'' ''2114 Bigelow Ave N'' 258000 lat lon)" "[]"]
  by (simp add: Decode_def comps_stub_def um_CompsResult um_CompsRequest
      zero_CompsResult zero_CompsRequest checkXMLName_def assignXMLName_def leaf_def ws_def
      um_message um_principal[OF lat lon] parse_plain parse_ints comps_stub_value_def)

subsection \<open>Broken elements\<close>






lemma Decode_error_stub:
  "Decode pf ZestimateResult_type (error_stub ''zestimate'') (zero ZestimateResult_type) =
     (error_stub_value ZestimateResult_type ''zestimate'', None)"
  "Decode pf SearchResults_type (error_stub ''searchresults'') (zero SearchResults_type) =
     (error_stub_value SearchResults_type ''searchresults'', None)"
  "Decode pf ChartResult_type (error_stub ''chart'') (zero ChartResult_type) =
     (error_stub_value ChartResult_type ''chart'', None)"
  "Decode pf CompsResult_type (error_stub ''comps'') (zero CompsResult_type) =
     (error_stub_value CompsResult_type ''comps'', None)"
  by (simp_all add: Decode_def error_stub_def um_ZestimateResult um_SearchResults um_ChartResult
      um_CompsResult zero_ZestimateResult zero_SearchResults zero_ChartResult zero_CompsResult
      checkXMLName_def assignXMLName_def ws_def um_message parse_plain parse_ints
      error_stub_value_def)



subsection \<open>The operations\<close>

lemma GetZestimate_eq:
  "GetZestimate pf w z r =
     ((case respond w (zestimateURL z r) of
         Inl err \<Rightarrow> (None, Some err)
       | Inr resp \<Rightarrow>
           (case Decode pf ZestimateResult_type (Body resp) (zero ZestimateResult_type) of
              (p, Some err) \<Rightarrow> (None, Some err)
            | (p, None) \<Rightarrow> (Some p, None))),
      w\<lparr>sent := sent w @ [zestimateURL z r]\<rparr>)"
  by (simp add: GetZestimate_def get_def http_Get_def Let_def
      split: sum.splits prod.splits option.splits)

lemma GetSearchResults_eq:
  "GetSearchResults pf w z r =
     ((case respond w (searchURL z r) of
         Inl err \<Rightarrow> (None, Some err)
       | Inr resp \<Rightarrow>
           (case Decode pf SearchResults_type (Body resp) (zero SearchResults_type) of
              (p, Some err) \<Rightarrow> (None, Some err)
            | (p, None) \<Rightarrow> (Some p, None))),
      w\<lparr>sent := sent w @ [searchURL z r]\<rparr>)"
  by (simp add: GetSearchResults_def get_def http_Get_def Let_def
      split: sum.splits prod.splits option.splits)

lemma GetChart_eq:
  "GetChart pf w z r =
     ((case respond w (chartURL z r) of
         Inl err \<Rightarrow> (None, Some err)
       | Inr resp \<Rightarrow>
           (case Decode pf ChartResult_type (Body resp) (zero ChartResult_type) of
              (p, Some err) \<Rightarrow> (None, Some err)
            | (p, None) \<Rightarrow> (Some p, None))),
      w\<lparr>sent := sent w @ [chartURL z r]\<rparr>)"
  by (simp add: GetChart_def get_def http_Get_def Let_def
      split: sum.splits prod.splits option.splits)

lemma GetComps_eq:
  "GetComps pf w z r =
     ((case respond w (compsURL z r) of
         Inl err \<Rightarrow> (None, Some err)
       | Inr resp \<Rightarrow>
           (case Decode pf CompsResult_type (Body resp) (zero CompsResult_type) of
              (p, Some err) \<Rightarrow> (None, Some err)
            | (p, None) \<Rightarrow> (Some p, None))),
      w\<lparr>sent := sent w @ [compsURL z r]\<rparr>)"
  by (simp add: GetComps_def get_def http_Get_def Let_def
      split: sum.splits prod.splits option.splits)

lemmas Get_eqs = GetZestimate_eq GetSearchResults_eq GetChart_eq GetComps_eq

subsection \<open>The constructor\<close>

text \<open>
  C8. For every API key \<open>k\<close>, \<open>NewZillow k\<close> is a client whose stored key is \<open>k\<close> and
  whose stored base URL is the constant \<open>baseUrl\<close>, that is
  \<open>http://www.zillow.com/webservice/\<close>. The constructor is a pure function of the key:
  it takes and returns no network state.
\<close>

theorem NewZillow_fields:
  "zwsId (NewZillow k) = k \<and> url (NewZillow k) = baseUrl
   \<and> url (NewZillow k) = ''http://www.zillow.com/webservice/''"
  by (simp add: NewZillow_def baseUrl_def)

subsection \<open>The query string of each operation\<close>

text \<open>
  C1. For each of the four operations, every client and every request struct, the one
  request that the operation issues goes to a URL that ends, after the \<open>?\<close>, in a query
  string \<open>q\<close> which, read back with \<open>ParseQuery\<close>, has exactly the parameters of the
  operation and no others, each once and without error: \<open>zws-Id\<close> with the API key of the
  client, the string fields of the request as they are, a boolean field as \<open>FormatBool\<close>
  of it, which is \<open>true\<close> or \<open>false\<close>, and an integer field as \<open>Itoa\<close> of it, which is its
  decimal representation: it consists of decimal digits after an optional minus sign,
  \<open>ParseInt\<close> in base 10 reads it back to the same integer, and its first digit is \<open>0\<close>
  only for the integer 0 (0 is \<open>0\<close>, 300 is \<open>300\<close> and -5 is \<open>-5\<close>).
\<close>

theorem query_parameters:
  "(\<exists>q. sent (snd (GetZestimate pf w z zr))
           = sent w @ [url z @ ''/'' @ getZestimatePath @ ''.htm?'' @ q]
        \<and> ParseQuery q =
            ([(''rentzestimate'', FormatBool (ZestimateRequest.Rentzestimate zr)),
              (''zpid'', ZestimateRequest.Zpid zr),
              (''zws-Id'', zwsId z)], None))
   \<and> (\<exists>q. sent (snd (GetSearchResults pf w z sr))
           = sent w @ [url z @ ''/'' @ getSearchResults @ ''.htm?'' @ q]
        \<and> ParseQuery q =
            ([(''address'', Address sr),
              (''citystatezip'', CityStateZip sr),
              (''rentzestimate'', FormatBool (SearchRequest.Rentzestimate sr)),
              (''zws-Id'', zwsId z)], None))
   \<and> (\<exists>q. sent (snd (GetChart pf w z cr))
           = sent w @ [url z @ ''/'' @ getChart @ ''.htm?'' @ q]
        \<and> ParseQuery q =
            ([(''chartDuration'', Duration cr),
              (''height'', Itoa (Height cr)),
              (''unit-type'', UnitType cr),
              (''width'', Itoa (Width cr)),
              (''zpid'', ChartRequest.Zpid cr),
              (''zws-Id'', zwsId z)], None))
   \<and> (\<exists>q. sent (snd (GetComps pf w z pr))
           = sent w @ [url z @ ''/'' @ getComps @ ''.htm?'' @ q]
        \<and> ParseQuery q =
            ([(''count'', Itoa (Count pr)),
              (''rentzestimate'', FormatBool (CompsRequest.Rentzestimate pr)),
              (''zpid'', CompsRequest.Zpid pr),
              (''zws-Id'', zwsId z)], None))
   \<and> FormatBool True = ''true'' \<and> FormatBool False = ''false''
   \<and> ParseInt (Itoa n) = Inr n
   \<and> list_all (\<lambda>c. isDigit c \<or> c = CHR ''-'') (Itoa n)
   \<and> (hd (dropWhile (\<lambda>c. c = CHR ''-'') (Itoa n)) = CHR ''0'') = (n = 0)
   \<and> Itoa 0 = ''0'' \<and> Itoa 300 = ''300'' \<and> Itoa (- 5) = ''-5''"
proof -
  have 1: "\<exists>q. sent (snd (GetZestimate pf w z zr))
           = sent w @ [url z @ ''/'' @ getZestimatePath @ ''.htm?'' @ q]
        \<and> ParseQuery q =
            ([(''rentzestimate'', FormatBool (ZestimateRequest.Rentzestimate zr)),
              (''zpid'', ZestimateRequest.Zpid zr),
              (''zws-Id'', zwsId z)], None)"
    by (rule exI[of _ "Encode (GetZestimate_values z zr)"])
       (simp add: GetZestimate_eq ParseQuery_Encode settings_GetZestimate)
  have 2: "\<exists>q. sent (snd (GetSearchResults pf w z sr))
           = sent w @ [url z @ ''/'' @ getSearchResults @ ''.htm?'' @ q]
        \<and> ParseQuery q =
            ([(''address'', Address sr),
              (''citystatezip'', CityStateZip sr),
              (''rentzestimate'', FormatBool (SearchRequest.Rentzestimate sr)),
              (''zws-Id'', zwsId z)], None)"
    by (rule exI[of _ "Encode (GetSearchResults_values z sr)"])
       (simp add: GetSearchResults_eq ParseQuery_Encode settings_GetSearchResults)
  have 3: "\<exists>q. sent (snd (GetChart pf w z cr))
           = sent w @ [url z @ ''/'' @ getChart @ ''.htm?'' @ q]
        \<and> ParseQuery q =
            ([(''chartDuration'', Duration cr),
              (''height'', Itoa (Height cr)),
              (''unit-type'', UnitType cr),
              (''width'', Itoa (Width cr)),
              (''zpid'', ChartRequest.Zpid cr),
              (''zws-Id'', zwsId z)], None)"
    by (rule exI[of _ "Encode (GetChart_values z cr)"])
       (simp add: GetChart_eq ParseQuery_Encode settings_GetChart)
  have 4: "\<exists>q. sent (snd (GetComps pf w z pr))
           = sent w @ [url z @ ''/'' @ getComps @ ''.htm?'' @ q]
        \<and> ParseQuery q =
            ([(''count'', Itoa (Count pr)),
              (''rentzestimate'', FormatBool (CompsRequest.Rentzestimate pr)),
              (''zpid'', CompsRequest.Zpid pr),
              (''zws-Id'', zwsId z)], None)"
    by (rule exI[of _ "Encode (GetComps_values z pr)"])
       (simp add: GetComps_eq ParseQuery_Encode settings_GetComps)
  have 5: "FormatBool True = ''true'' \<and> FormatBool False = ''false''"
    by (simp add: FormatBool_def)
  have 6: "Itoa 0 = ''0'' \<and> Itoa 300 = ''300'' \<and> Itoa (- 5) = ''-5''"
    by (simp add: Itoa_def FormatInt10_def formatBits10.simps digits_def)
  from 1 2 3 4 5 6 ParseInt_Itoa[of n] Itoa_chars[of n] Itoa_leading_zero[of n] show ?thesis
    by blast
qed

text \<open>
  C10. For every operation, every client and every request struct, the request goes to
  the URL whose query string is written out below: the parameters stand in ascending
  byte-wise lexicographic order of their keys, which are also the keys, in this order,
  that \<open>ParseQuery\<close> reads from it. The string does not depend on the order in which the
  Go map yields its entries: for every list \<open>v'\<close> of the entries of the operation's map
  literal, in any order, the operation requests the URL with the encoding of \<open>v'\<close>.
\<close>

theorem query_keys_sorted:
  "sent (snd (GetZestimate pf w z zr)) =
     sent w @ [url z @ ''/'' @ getZestimatePath @ ''.htm?''
       @ ''rentzestimate='' @ FormatBool (ZestimateRequest.Rentzestimate zr)
       @ ''&zpid='' @ QueryEscape (ZestimateRequest.Zpid zr)
       @ ''&zws-Id='' @ QueryEscape (zwsId z)]
   \<and> sent (snd (GetSearchResults pf w z sr)) =
     sent w @ [url z @ ''/'' @ getSearchResults @ ''.htm?''
       @ ''address='' @ QueryEscape (Address sr)
       @ ''&citystatezip='' @ QueryEscape (CityStateZip sr)
       @ ''&rentzestimate='' @ FormatBool (SearchRequest.Rentzestimate sr)
       @ ''&zws-Id='' @ QueryEscape (zwsId z)]
   \<and> sent (snd (GetChart pf w z cr)) =
     sent w @ [url z @ ''/'' @ getChart @ ''.htm?''
       @ ''chartDuration='' @ QueryEscape (Duration cr)
       @ ''&height='' @ Itoa (Height cr)
       @ ''&unit-type='' @ QueryEscape (UnitType cr)
       @ ''&width='' @ Itoa (Width cr)
       @ ''&zpid='' @ QueryEscape (ChartRequest.Zpid cr)
       @ ''&zws-Id='' @ QueryEscape (zwsId z)]
   \<and> sent (snd (GetComps pf w z pr)) =
     sent w @ [url z @ ''/'' @ getComps @ ''.htm?''
       @ ''count='' @ Itoa (Count pr)
       @ ''&rentzestimate='' @ FormatBool (CompsRequest.Rentzestimate pr)
       @ ''&zpid='' @ QueryEscape (CompsRequest.Zpid pr)
       @ ''&zws-Id='' @ QueryEscape (zwsId z)]
   \<and> (\<exists>q. sent (snd (GetZestimate pf w z zr))
             = sent w @ [url z @ ''/'' @ getZestimatePath @ ''.htm?'' @ q]
          \<and> map fst (fst (ParseQuery q)) = [''rentzestimate'', ''zpid'', ''zws-Id'']
          \<and> sorted (map fst (fst (ParseQuery q))))
   \<and> (\<exists>q. sent (snd (GetSearchResults pf w z sr))
             = sent w @ [url z @ ''/'' @ getSearchResults @ ''.htm?'' @ q]
          \<and> map fst (fst (ParseQuery q)) = [''address'', ''citystatezip'', ''rentzestimate'', ''zws-Id'']
          \<and> sorted (map fst (fst (ParseQuery q))))
   \<and> (\<exists>q. sent (snd (GetChart pf w z cr))
             = sent w @ [url z @ ''/'' @ getChart @ ''.htm?'' @ q]
          \<and> map fst (fst (ParseQuery q))
              = [''chartDuration'', ''height'', ''unit-type'', ''width'', ''zpid'', ''zws-Id'']
          \<and> sorted (map fst (fst (ParseQuery q))))
   \<and> (\<exists>q. sent (snd (GetComps pf w z pr))
             = sent w @ [url z @ ''/'' @ getComps @ ''.htm?'' @ q]
          \<and> map fst (fst (ParseQuery q)) = [''count'', ''rentzestimate'', ''zpid'', ''zws-Id'']
          \<and> sorted (map fst (fst (ParseQuery q))))
   \<and> (mset v1 = mset (GetZestimate_values z zr) \<longrightarrow>
        sent (snd (GetZestimate pf w z zr))
          = sent w @ [url z @ ''/'' @ getZestimatePath @ ''.htm?'' @ Encode v1])
   \<and> (mset v2 = mset (GetSearchResults_values z sr) \<longrightarrow>
        sent (snd (GetSearchResults pf w z sr))
          = sent w @ [url z @ ''/'' @ getSearchResults @ ''.htm?'' @ Encode v2])
   \<and> (mset v3 = mset (GetChart_values z cr) \<longrightarrow>
        sent (snd (GetChart pf w z cr))
          = sent w @ [url z @ ''/'' @ getChart @ ''.htm?'' @ Encode v3])
   \<and> (mset v4 = mset (GetComps_values z pr) \<longrightarrow>
        sent (snd (GetComps pf w z pr))
          = sent w @ [url z @ ''/'' @ getComps @ ''.htm?'' @ Encode v4])"
proof -
  have s1: "sent (snd (GetZestimate pf w z zr))
      = sent w @ [url z @ ''/'' @ getZestimatePath @ ''.htm?'' @ Encode (GetZestimate_values z zr)]"
    by (simp add: GetZestimate_eq)
  have s2: "sent (snd (GetSearchResults pf w z sr))
      = sent w @ [url z @ ''/'' @ getSearchResults @ ''.htm?'' @ Encode (GetSearchResults_values z sr)]"
    by (simp add: GetSearchResults_eq)
  have s3: "sent (snd (GetChart pf w z cr))
      = sent w @ [url z @ ''/'' @ getChart @ ''.htm?'' @ Encode (GetChart_values z cr)]"
    by (simp add: GetChart_eq)
  have s4: "sent (snd (GetComps pf w z pr))
      = sent w @ [url z @ ''/'' @ getComps @ ''.htm?'' @ Encode (GetComps_values z pr)]"
    by (simp add: GetComps_eq)
  have e: "sent (snd (GetZestimate pf w z zr)) =
     sent w @ [url z @ ''/'' @ getZestimatePath @ ''.htm?''
       @ ''rentzestimate='' @ FormatBool (ZestimateRequest.Rentzestimate zr)
       @ ''&zpid='' @ QueryEscape (ZestimateRequest.Zpid zr)
       @ ''&zws-Id='' @ QueryEscape (zwsId z)]"
    "sent (snd (GetSearchResults pf w z sr)) =
     sent w @ [url z @ ''/'' @ getSearchResults @ ''.htm?''
       @ ''address='' @ QueryEscape (Address sr)
       @ ''&citystatezip='' @ QueryEscape (CityStateZip sr)
       @ ''&rentzestimate='' @ FormatBool (SearchRequest.Rentzestimate sr)
       @ ''&zws-Id='' @ QueryEscape (zwsId z)]"
    "sent (snd (GetChart pf w z cr)) =
     sent w @ [url z @ ''/'' @ getChart @ ''.htm?''
       @ ''chartDuration='' @ QueryEscape (Duration cr)
       @ ''&height='' @ Itoa (Height cr)
       @ ''&unit-type='' @ QueryEscape (UnitType cr)
       @ ''&width='' @ Itoa (Width cr)
       @ ''&zpid='' @ QueryEscape (ChartRequest.Zpid cr)
       @ ''&zws-Id='' @ QueryEscape (zwsId z)]"
    "sent (snd (GetComps pf w z pr)) =
     sent w @ [url z @ ''/'' @ getComps @ ''.htm?''
       @ ''count='' @ Itoa (Count pr)
       @ ''&rentzestimate='' @ FormatBool (CompsRequest.Rentzestimate pr)
       @ ''&zpid='' @ QueryEscape (CompsRequest.Zpid pr)
       @ ''&zws-Id='' @ QueryEscape (zwsId z)]"
    by (simp_all only: s1 s2 s3 s4 Encode_values_of)
  have k1: "\<exists>q. sent (snd (GetZestimate pf w z zr))
             = sent w @ [url z @ ''/'' @ getZestimatePath @ ''.htm?'' @ q]
          \<and> map fst (fst (ParseQuery q)) = [''rentzestimate'', ''zpid'', ''zws-Id'']
          \<and> sorted (map fst (fst (ParseQuery q)))"
    by (rule exI[of _ "Encode (GetZestimate_values z zr)"])
       (simp add: s1 ParseQuery_Encode sorted_settings, simp add: settings_GetZestimate)
  have k2: "\<exists>q. sent (snd (GetSearchResults pf w z sr))
             = sent w @ [url z @ ''/'' @ getSearchResults @ ''.htm?'' @ q]
          \<and> map fst (fst (ParseQuery q)) = [''address'', ''citystatezip'', ''rentzestimate'', ''zws-Id'']
          \<and> sorted (map fst (fst (ParseQuery q)))"
    by (rule exI[of _ "Encode (GetSearchResults_values z sr)"])
       (simp add: s2 ParseQuery_Encode sorted_settings, simp add: settings_GetSearchResults)
  have k3: "\<exists>q. sent (snd (GetChart pf w z cr))
             = sent w @ [url z @ ''/'' @ getChart @ ''.htm?'' @ q]
          \<and> map fst (fst (ParseQuery q))
              = [''chartDuration'', ''height'', ''unit-type'', ''width'', ''zpid'', ''zws-Id'']
          \<and> sorted (map fst (fst (ParseQuery q)))"
    by (rule exI[of _ "Encode (GetChart_values z cr)"])
       (simp add: s3 ParseQuery_Encode sorted_settings, simp add: settings_GetChart)
  have k4: "\<exists>q. sent (snd (GetComps pf w z pr))
             = sent w @ [url z @ ''/'' @ getComps @ ''.htm?'' @ q]
          \<and> map fst (fst (ParseQuery q)) = [''count'', ''rentzestimate'', ''zpid'', ''zws-Id'']
          \<and> sorted (map fst (fst (ParseQuery q)))"
    by (rule exI[of _ "Encode (GetComps_values z pr)"])
       (simp add: s4 ParseQuery_Encode sorted_settings, simp add: settings_GetComps)
  have p1: "mset v1 = mset (GetZestimate_values z zr) \<longrightarrow>
        sent (snd (GetZestimate pf w z zr))
          = sent w @ [url z @ ''/'' @ getZestimatePath @ ''.htm?'' @ Encode v1]"
    using Encode_perm[OF distinct_keys(1), of v1 z zr] by (simp add: s1)
  have p2: "mset v2 = mset (GetSearchResults_values z sr) \<longrightarrow>
        sent (snd (GetSearchResults pf w z sr))
          = sent w @ [url z @ ''/'' @ getSearchResults @ ''.htm?'' @ Encode v2]"
    using Encode_perm[OF distinct_keys(2), of v2 z sr] by (simp add: s2)
  have p3: "mset v3 = mset (GetChart_values z cr) \<longrightarrow>
        sent (snd (GetChart pf w z cr))
          = sent w @ [url z @ ''/'' @ getChart @ ''.htm?'' @ Encode v3]"
    using Encode_perm[OF distinct_keys(3), of v3 z cr] by (simp add: s3)
  have p4: "mset v4 = mset (GetComps_values z pr) \<longrightarrow>
        sent (snd (GetComps pf w z pr))
          = sent w @ [url z @ ''/'' @ getComps @ ''.htm?'' @ Encode v4]"
    using Encode_perm[OF distinct_keys(4), of v4 z pr] by (simp add: s4)
  from e k1 k2 k3 k4 p1 p2 p3 p4 show ?thesis
    by blast
qed

theorem query_keys_sorted_witness:
  "sent (snd (GetChart stubParseFloat refusing (NewZillow ''X1-ZWz1'')
       \<lparr>ChartRequest.Zpid = ''48749425'', UnitType = ''percent'', Width = 300, Height = 200,
         Duration = ''1year''\<rparr>))
     = [''http://www.zillow.com/webservice//GetChart.htm?''
        @ Encode [(''height'', [''200'']), (''zws-Id'', [''X1-ZWz1'']), (''chartDuration'', [''1year'']),
                  (''zpid'', [''48749425'']), (''width'', [''300'']), (''unit-type'', [''percent''])]]
   \<and> sent (snd (GetChart stubParseFloat refusing (NewZillow ''X1-ZWz1'')
       \<lparr>ChartRequest.Zpid = ''48749425'', UnitType = ''percent'', Width = 300, Height = 200,
         Duration = ''1year''\<rparr>))
     = [''http://www.zillow.com/webservice//GetChart.htm?''
        @ ''chartDuration=1year&height=200&unit-type=percent&width=300&zpid=48749425&zws-Id=X1-ZWz1'']"
proof -
  let ?z = "NewZillow ''X1-ZWz1''"
  let ?cr = "\<lparr>ChartRequest.Zpid = ''48749425'', UnitType = ''percent'', Width = 300, Height = 200,
               Duration = ''1year''\<rparr>"
  let ?v3 = "[(''height'', [''200'']), (''zws-Id'', [''X1-ZWz1'']), (''chartDuration'', [''1year'']),
              (''zpid'', [''48749425'']), (''width'', [''300'']), (''unit-type'', [''percent''])]"
  have i: "Itoa 300 = ''300''" "Itoa 200 = ''200''"
    by (simp_all add: Itoa_def FormatInt10_def formatBits10.simps digits_def)
  have m3: "mset ?v3 = mset (GetChart_values ?z ?cr)"
    by (simp add: GetChart_values_def NewZillow_def param_defs i)
  have q: "QueryEscape ''1year'' = ''1year''" "QueryEscape ''percent'' = ''percent''"
    "QueryEscape ''48749425'' = ''48749425''" "QueryEscape ''X1-ZWz1'' = ''X1-ZWz1''"
    by (simp_all add: QueryEscape_def shouldEscape_def)
  from query_keys_sorted[where pf = stubParseFloat and w = refusing and z = ?z and cr = ?cr
      and ?v3.0 = ?v3] m3
  have "sent (snd (GetChart stubParseFloat refusing ?z ?cr))
      = sent refusing @ [url ?z @ ''/'' @ getChart @ ''.htm?'' @ Encode ?v3]"
    and "sent (snd (GetChart stubParseFloat refusing ?z ?cr))
      = sent refusing @ [url ?z @ ''/'' @ getChart @ ''.htm?''
       @ ''chartDuration='' @ QueryEscape (Duration ?cr)
       @ ''&height='' @ Itoa (Height ?cr)
       @ ''&unit-type='' @ QueryEscape (UnitType ?cr)
       @ ''&width='' @ Itoa (Width ?cr)
       @ ''&zpid='' @ QueryEscape (ChartRequest.Zpid ?cr)
       @ ''&zws-Id='' @ QueryEscape (zwsId ?z)]"
    by blast+
  then show ?thesis
    by (simp add: refusing_def NewZillow_def baseUrl_def getChart_def i q)
qed

text \<open>
  C2. Each operation issues exactly one request, to the URL that is the base URL of the
  client, one \<open>'/'\<close>, the operation's path, \<open>.htm?\<close> and the encoded query string. For a
  client made by \<open>NewZillow\<close> the base URL is the constant \<open>baseUrl\<close>; as this constant
  itself ends in \<open>'/'\<close>, the URL reads \<open>http://www.zillow.com/webservice//GetZestimate.htm?...\<close>.
\<close>

theorem request_url:
  "sent (snd (GetZestimate pf w (NewZillow k) zr)) =
     sent w @ [baseUrl @ ''/'' @ getZestimatePath @ ''.htm?''
                @ Encode (GetZestimate_values (NewZillow k) zr)]
   \<and> sent (snd (GetSearchResults pf w (NewZillow k) sr)) =
     sent w @ [baseUrl @ ''/'' @ getSearchResults @ ''.htm?''
                @ Encode (GetSearchResults_values (NewZillow k) sr)]
   \<and> sent (snd (GetChart pf w (NewZillow k) cr)) =
     sent w @ [baseUrl @ ''/'' @ getChart @ ''.htm?''
                @ Encode (GetChart_values (NewZillow k) cr)]
   \<and> sent (snd (GetComps pf w (NewZillow k) pr)) =
     sent w @ [baseUrl @ ''/'' @ getComps @ ''.htm?''
                @ Encode (GetComps_values (NewZillow k) pr)]
   \<and> baseUrl @ ''/'' @ getZestimatePath @ ''.htm?''
       = ''http://www.zillow.com/webservice//GetZestimate.htm?''
   \<and> baseUrl @ ''/'' @ getSearchResults @ ''.htm?''
       = ''http://www.zillow.com/webservice//GetSearchResults.htm?''
   \<and> baseUrl @ ''/'' @ getChart @ ''.htm?'' = ''http://www.zillow.com/webservice//GetChart.htm?''
   \<and> baseUrl @ ''/'' @ getComps @ ''.htm?'' = ''http://www.zillow.com/webservice//GetComps.htm?''"
  by (simp add: Get_eqs NewZillow_def baseUrl_def getZestimatePath_def getSearchResults_def
      getChart_def getComps_def)

text \<open>
  C5. For every operation, when the HTTP GET fails with an error, the operation returns
  that error unchanged and a nil result.
\<close>

theorem transport_error_returned:
  "(respond w (zestimateURL z zr) = Inl err
      \<longrightarrow> fst (GetZestimate pf w z zr) = (None, Some err))
   \<and> (respond w (searchURL z sr) = Inl err
      \<longrightarrow> fst (GetSearchResults pf w z sr) = (None, Some err))
   \<and> (respond w (chartURL z cr) = Inl err
      \<longrightarrow> fst (GetChart pf w z cr) = (None, Some err))
   \<and> (respond w (compsURL z pr) = Inl err
      \<longrightarrow> fst (GetComps pf w z pr) = (None, Some err))"
  by (simp add: Get_eqs)

theorem transport_error_returned_witness:
  "fst (GetZestimate stubParseFloat refusing (NewZillow ''X1-ZWz1'')
          \<lparr>ZestimateRequest.Zpid = ''48749425'', Rentzestimate = False\<rparr>)
     = (None, Some (NetError ''dial tcp: connection refused''))
   \<and> fst (GetSearchResults stubParseFloat refusing (NewZillow ''X1-ZWz1'')
          \<lparr>Address = ''2114 Bigelow Ave'', CityStateZip = ''Seattle, WA'', Rentzestimate = False\<rparr>)
     = (None, Some (NetError ''dial tcp: connection refused''))
   \<and> fst (GetChart stubParseFloat refusing (NewZillow ''X1-ZWz1'')
          \<lparr>ChartRequest.Zpid = ''48749425'', UnitType = ''percent'', Width = 300, Height = 150,
            Duration = ''1year''\<rparr>)
     = (None, Some (NetError ''dial tcp: connection refused''))
   \<and> fst (GetComps stubParseFloat refusing (NewZillow ''X1-ZWz1'')
          \<lparr>CompsRequest.Zpid = ''48749425'', Count = 5, Rentzestimate = False\<rparr>)
     = (None, Some (NetError ''dial tcp: connection refused''))"
  using transport_error_returned[where w = refusing and z = "NewZillow ''X1-ZWz1''"
      and err = "NetError ''dial tcp: connection refused''" and pf = stubParseFloat
      and zr = "\<lparr>ZestimateRequest.Zpid = ''48749425'', Rentzestimate = False\<rparr>"
      and sr = "\<lparr>Address = ''2114 Bigelow Ave'', CityStateZip = ''Seattle, WA'',
                 Rentzestimate = False\<rparr>"
      and cr = "\<lparr>ChartRequest.Zpid = ''48749425'', UnitType = ''percent'', Width = 300,
                 Height = 150, Duration = ''1year''\<rparr>"
      and pr = "\<lparr>CompsRequest.Zpid = ''48749425'', Count = 5, Rentzestimate = False\<rparr>"]
  by (simp add: refusing_def)

text \<open>
  C3. For every operation, when the HTTP GET returns a response and its body decodes
  without error into the value \<open>r\<close>, the operation returns \<open>r\<close> and a nil error. Nothing is
  asked of \<open>r\<close>: whatever its message block holds, the result is not an error.
\<close>

theorem application_error_is_no_error:
  "(respond w (zestimateURL z zr) = Inr resp
      \<and> Decode pf ZestimateResult_type (Body resp) (zero ZestimateResult_type) = (r, None)
      \<longrightarrow> fst (GetZestimate pf w z zr) = (Some r, None))
   \<and> (respond w (searchURL z sr) = Inr resp
      \<and> Decode pf SearchResults_type (Body resp) (zero SearchResults_type) = (r, None)
      \<longrightarrow> fst (GetSearchResults pf w z sr) = (Some r, None))
   \<and> (respond w (chartURL z cr) = Inr resp
      \<and> Decode pf ChartResult_type (Body resp) (zero ChartResult_type) = (r, None)
      \<longrightarrow> fst (GetChart pf w z cr) = (Some r, None))
   \<and> (respond w (compsURL z pr) = Inr resp
      \<and> Decode pf CompsResult_type (Body resp) (zero CompsResult_type) = (r, None)
      \<longrightarrow> fst (GetComps pf w z pr) = (Some r, None))"
  by (simp add: Get_eqs)

theorem application_error_is_no_error_witness:
  "fst (GetZestimate stubParseFloat (answering 200 (error_stub ''zestimate'')) (NewZillow ''wrong-key'')
          \<lparr>ZestimateRequest.Zpid = ''48749425'', Rentzestimate = False\<rparr>)
     = (Some (error_stub_value ZestimateResult_type ''zestimate''), None)
   \<and> getPath (error_stub_value ZestimateResult_type ''zestimate'') [''Message'', ''Code'']
     = Some (VInt 2)
   \<and> getPath (error_stub_value ZestimateResult_type ''zestimate'') [''Message'', ''Text'']
     = Some (VString ''Error: invalid or missing ZWSID parameter'')"
proof -
  let ?w = "answering 200 (error_stub ''zestimate'')"
  let ?z = "NewZillow ''wrong-key''"
  let ?zr = "\<lparr>ZestimateRequest.Zpid = ''48749425'', Rentzestimate = False\<rparr>"
  have "respond ?w (zestimateURL ?z ?zr) = Inr \<lparr>StatusCode = 200, Body = error_stub ''zestimate''\<rparr>"
    by (simp add: answering_def)
  moreover have "Decode stubParseFloat ZestimateResult_type
      (Body \<lparr>StatusCode = 200, Body = error_stub ''zestimate''\<rparr>) (zero ZestimateResult_type)
      = (error_stub_value ZestimateResult_type ''zestimate'', None)"
    by (simp add: Decode_error_stub)
  ultimately have "fst (GetZestimate stubParseFloat ?w ?z ?zr)
      = (Some (error_stub_value ZestimateResult_type ''zestimate''), None)"
    using application_error_is_no_error[where w = ?w and z = ?z and zr = ?zr
        and resp = "\<lparr>StatusCode = 200, Body = error_stub ''zestimate''\<rparr>"
        and pf = stubParseFloat and r = "error_stub_value ZestimateResult_type ''zestimate''"]
    by blast
  moreover have "getPath (error_stub_value ZestimateResult_type ''zestimate'') [''Message'', ''Code'']
     = Some (VInt 2)"
    by (simp add: error_stub_value_def zero_ZestimateResult message_value_def)
  moreover have "getPath (error_stub_value ZestimateResult_type ''zestimate'') [''Message'', ''Text'']
     = Some (VString ''Error: invalid or missing ZWSID parameter'')"
    by (simp add: error_stub_value_def zero_ZestimateResult message_value_def)
  ultimately show ?thesis by blast
qed






text \<open>
  C6. For the request \<open>{Zpid: "48749425", Rentzestimate: false}\<close>, when the response
  is the stub valuation document (amount 258000 with currency USD, valuation range from
  231000 to 278000), \<open>GetZestimate\<close> returns a result and a nil error, and in the result
  \<open>Zestimate.Amount.Value\<close> is 258000, \<open>Zestimate.Amount.Currency\<close> is \<open>USD\<close>,
  \<open>Zestimate.Low.Value\<close> is 231000 and \<open>Zestimate.High.Value\<close> is 278000. (The floats of
  the document are parsed by \<open>strconv.ParseFloat\<close>, which is assumed to accept them.)
\<close>

theorem zestimate_scenario:
  assumes "respond w (zestimateURL z \<lparr>ZestimateRequest.Zpid = ''48749425'', Rentzestimate = False\<rparr>)
             = Inr resp"
    and "Body resp = zestimate_stub"
    and "pf ''47.637933'' = Inr lat" and "pf ''-122.347938'' = Inr lon" and "pf ''-0.144'' = Inr ch"
  shows "fst (GetZestimate pf w z \<lparr>ZestimateRequest.Zpid = ''48749425'', Rentzestimate = False\<rparr>)
           = (Some (zestimate_stub_value lat lon ch), None)
     \<and> getPath (zestimate_stub_value lat lon ch) [''Zestimate'', ''Amount'', ''Value'']
           = Some (VInt 258000)
     \<and> getPath (zestimate_stub_value lat lon ch) [''Zestimate'', ''Amount'', ''Currency'']
           = Some (VString ''USD'')
     \<and> getPath (zestimate_stub_value lat lon ch) [''Zestimate'', ''Low'', ''Value'']
           = Some (VInt 231000)
     \<and> getPath (zestimate_stub_value lat lon ch) [''Zestimate'', ''High'', ''Value'']
           = Some (VInt 278000)"
  using assms
  by (simp add: Get_eqs Decode_zestimate_stub zestimate_stub_value_def zestimate_value_def)

theorem zestimate_scenario_witness:
  "fst (GetZestimate stubParseFloat (answering 200 zestimate_stub) (NewZillow ''X1-ZWz1'')
          \<lparr>ZestimateRequest.Zpid = ''48749425'', Rentzestimate = False\<rparr>)
     = (Some (zestimate_stub_value 0x4047D1A7C9DE0503 0xC05E96449DBEC248 0xBFC26E978D4FDF3B), None)
   \<and> getPath (zestimate_stub_value 0x4047D1A7C9DE0503 0xC05E96449DBEC248 0xBFC26E978D4FDF3B)
         [''Zestimate'', ''Amount'', ''Value''] = Some (VInt 258000)"
  using zestimate_scenario[where w = "answering 200 zestimate_stub" and z = "NewZillow ''X1-ZWz1''"
      and resp = "\<lparr>StatusCode = 200, Body = zestimate_stub\<rparr>" and pf = stubParseFloat
      and lat = "0x4047D1A7C9DE0503" and lon = "0xC05E96449DBEC248" and ch = "0xBFC26E978D4FDF3B"]
  by (simp add: answering_def stubParseFloat_def)

text \<open>
  C7. For the request \<open>{Zpid: "48749425", Count: 5, Rentzestimate: false}\<close>, when the
  response is the stub comparables document with one principal and the five \<open>comp\<close>
  elements \<open>cs\<close>, \<open>GetComps\<close> returns a result and a nil error; its \<open>Comparables\<close> has
  exactly five entries, in the order of the \<open>comp\<close> elements in the document (the \<open>i\<close>-th
  entry has the property identifier of the \<open>i\<close>-th element), and the \<open>Score\<close> of each
  entry is the float that \<open>strconv.ParseFloat\<close> reads from the \<open>score\<close> attribute of its
  element.
\<close>

theorem comps_scenario:
  assumes "respond w (compsURL z \<lparr>CompsRequest.Zpid = ''48749425'', Count = 5, Rentzestimate = False\<rparr>)
             = Inr resp"
    and "Body resp = comps_stub cs"
    and "length cs = 5"
    and "list_all2 (\<lambda>c f. fst c \<noteq> [] \<and> pf (TrimSpace (fst c)) = Inr f) cs scores"
    and "pf ''47.637933'' = Inr lat" and "pf ''-122.347938'' = Inr lon"
  shows "\<exists>comps.
      fst (GetComps pf w z \<lparr>CompsRequest.Zpid = ''48749425'', Count = 5, Rentzestimate = False\<rparr>)
           = (Some (comps_stub_value lat lon cs scores), None)
      \<and> getPath (comps_stub_value lat lon cs scores) [''Comparables''] = Some (VSlice comps)
      \<and> length comps = 5
      \<and> map (\<lambda>c. getPath c [''Score'']) comps = map (\<lambda>f. Some (VFloat f)) scores
      \<and> map (\<lambda>c. getPath c [''Zpid'']) comps = map (\<lambda>c. Some (VString (snd c))) cs"
proof -
  from assms(4) have len: "length scores = length cs"
    by (simp add: list_all2_lengthD)
  have sc: "map (\<lambda>c. getPath c [''Score'']) (map2 (comp_value lat lon) cs scores)
      = map (\<lambda>f. Some (VFloat f)) scores"
    using len by (induction cs scores rule: list_induct2') (simp_all add: comp_value_def)
  have zp: "map (\<lambda>c. getPath c [''Zpid'']) (map2 (comp_value lat lon) cs scores)
      = map (\<lambda>c. Some (VString (snd c))) cs"
    using len
    by (induction cs scores rule: list_induct2') (simp_all add: comp_value_def property_value_def)
  have "fst (GetComps pf w z \<lparr>CompsRequest.Zpid = ''48749425'', Count = 5, Rentzestimate = False\<rparr>)
           = (Some (comps_stub_value lat lon cs scores), None)"
    using assms(1,2) Decode_comps_stub[OF assms(5,6,4)] by (simp add: Get_eqs)
  moreover have "getPath (comps_stub_value lat lon cs scores) [''Comparables'']
      = Some (VSlice (map2 (comp_value lat lon) cs scores))"
    by (simp add: comps_stub_value_def)
  moreover have "length (map2 (comp_value lat lon) cs scores) = 5"
    using len assms(3) by simp
  ultimately show ?thesis using sc zp by blast
qed

theorem comps_scenario_witness:
  "fst (GetComps stubParseFloat
          (answering 200 (comps_stub [(''9.0'', ''48689799''), (''8.0'', ''48749463''),
             (''7.0'', ''48749386''), (''6.0'', ''48749408''), (''5.0'', ''48689870'')]))
          (NewZillow ''X1-ZWz1'')
          \<lparr>CompsRequest.Zpid = ''48749425'', Count = 5, Rentzestimate = False\<rparr>)
     = (Some (comps_stub_value 0x4047D1A7C9DE0503 0xC05E96449DBEC248
          [(''9.0'', ''48689799''), (''8.0'', ''48749463''), (''7.0'', ''48749386''),
           (''6.0'', ''48749408''), (''5.0'', ''48689870'')]
          [0x4022000000000000, 0x4020000000000000, 0x401C000000000000, 0x4018000000000000,
           0x4014000000000000]), None)"
proof -
  let ?cs = "[(''9.0'', ''48689799''), (''8.0'', ''48749463''), (''7.0'', ''48749386''),
           (''6.0'', ''48749408''), (''5.0'', ''48689870'')]"
  let ?fs = "[0x4022000000000000, 0x4020000000000000, 0x401C000000000000, 0x4018000000000000,
           0x4014000000000000] :: 64 word list"
  have t: "TrimSpace ''9.0'' = ''9.0''" "TrimSpace ''8.0'' = ''8.0''" "TrimSpace ''7.0'' = ''7.0''"
    "TrimSpace ''6.0'' = ''6.0''" "TrimSpace ''5.0'' = ''5.0''"
    by (simp_all add: TrimSpace_plain plain_def)
  have s: "list_all2 (\<lambda>c f. fst c \<noteq> [] \<and> stubParseFloat (TrimSpace (fst c)) = Inr f) ?cs ?fs"
    by (simp add: t stubParseFloat_def)
  from comps_scenario[where w = "answering 200 (comps_stub ?cs)" and z = "NewZillow ''X1-ZWz1''"
      and resp = "\<lparr>StatusCode = 200, Body = comps_stub ?cs\<rparr>" and pf = stubParseFloat
      and cs = ?cs and scores = ?fs and lat = "0x4047D1A7C9DE0503" and lon = "0xC05E96449DBEC248", OF _ _ _ s]
  show ?thesis
    by (simp add: answering_def stubParseFloat_def)
qed

end
